theory Spec2Isabelle
  imports Complex_Main
begin

section \<open>Fine-tuning driver of ChatTTS (finetune.py)\<close>

text \<open>
  Tensors are nested lists: a grid of shape (batch, time) is a list of rows, a grid of
  shape (batch, time, num_vq) a list of rows of slot vectors. Token ids are Python ints
  (\<open>int\<close>), attention masks are boolean grids, scalar losses are idealised as reals.
  What the external libraries compute (the encoders and the quantizer, the transformer,
  the projection heads, the loss functions, the optimizer update) enters as a parameter
  of the function that calls it.
\<close>

subsection \<open>Python exceptions and slices\<close>

datatype py_error = UnboundLocalError | KeyError | IndexError | RuntimeError | ValueError

text \<open>\<open>xs[lo:hi]\<close> with Python's reading of negative and out-of-range bounds.\<close>

definition py_bound :: "nat \<Rightarrow> int \<Rightarrow> nat" where
  "py_bound n i = (if i < 0 then nat (max 0 (int n + i)) else min n (nat i))"

definition py_slice :: "int \<Rightarrow> int \<Rightarrow> 'a list \<Rightarrow> 'a list" where
  "py_slice lo hi xs =
     (let a = py_bound (length xs) lo; b = py_bound (length xs) hi
      in take (b - a) (drop a xs))"

text \<open>\<open>xs[:hi]\<close> and \<open>xs[lo:]\<close>.\<close>

definition py_slice_to :: "int \<Rightarrow> 'a list \<Rightarrow> 'a list" where
  "py_slice_to hi xs = take (py_bound (length xs) hi) xs"

definition py_slice_from :: "int \<Rightarrow> 'a list \<Rightarrow> 'a list" where
  "py_slice_from lo xs = drop (py_bound (length xs) lo) xs"

subsection \<open>The training-mode enums\<close>

datatype TrainModule = GPT_SPEAKER | GPT | SPEAKER | AUTOENCODER | ENCODER | DECODER

datatype DecoderType = DecoderType_DECODER | DecoderType_DVAE

subsection \<open>Sequence assembler (train_gpt, lines 206 to 261)\<close>

type_synonym mask = "bool list list"
type_synonym ids2 = "int list list"
type_synonym ids3 = "int list list list"

definition AUDIO_EOS_TOKEN_ID :: int where
  "AUDIO_EOS_TOKEN_ID = 0"

definition AUDIO_PAD_TOKEN_ID :: int where
  "AUDIO_PAD_TOKEN_ID = AUDIO_EOS_TOKEN_ID"

text \<open>\<open>~m.bool()\<close>\<close>

definition invert_mask :: "mask \<Rightarrow> mask" where
  "invert_mask m = map (map Not) m"

text \<open>\<open>x[m] = v\<close> for a (batch, time) boolean mask on a (batch, time, num_vq) grid:
  every slot of a selected position becomes \<open>v\<close>.\<close>

definition mask_assign_row :: "bool list \<Rightarrow> int \<Rightarrow> ids2 \<Rightarrow> ids2" where
  "mask_assign_row mrow v xrow =
     map2 (\<lambda>b slots. if b then map (\<lambda>_. v) slots else slots) mrow xrow"

definition mask_assign :: "mask \<Rightarrow> int \<Rightarrow> ids3 \<Rightarrow> ids3" where
  "mask_assign m v x = map2 (\<lambda>mrow xrow. mask_assign_row mrow v xrow) m x"

text \<open>\<open>m.int().sum(dim=1)\<close>\<close>

definition row_sum :: "bool list \<Rightarrow> nat" where
  "row_sum row = sum_list (map (\<lambda>b. if b then 1 else 0) row)"

definition row_sums :: "mask \<Rightarrow> nat list" where
  "row_sums m = map row_sum m"

text \<open>\<open>torch.cat([a, b], dim=1)\<close>\<close>

definition cat1 :: "'a list list \<Rightarrow> 'a list list \<Rightarrow> 'a list list" where
  "cat1 a b = map2 (@) a b"

text \<open>\<open>g[i, j] = v\<close> on a (batch, time) grid, and on a (batch, time, num_vq) grid where
  the scalar fills the slot vector. An index out of range raises IndexError.\<close>

definition set_item :: "'a list list \<Rightarrow> nat \<Rightarrow> nat \<Rightarrow> 'a \<Rightarrow> py_error + 'a list list" where
  "set_item g i j v =
     (if i < length g \<and> j < length (g ! i) then Inr (g[i := (g ! i)[j := v]])
      else Inl IndexError)"

definition fill_item :: "ids3 \<Rightarrow> nat \<Rightarrow> nat \<Rightarrow> int \<Rightarrow> py_error + ids3" where
  "fill_item g i j v =
     (if i < length g \<and> j < length (g ! i)
      then Inr (g[i := (g ! i)[j := map (\<lambda>_. v) (g ! i ! j)]])
      else Inl IndexError)"

text \<open>The loop of lines 236 to 238, over the rows \<open>is\<close> still to visit.\<close>

fun add_eos :: "nat list \<Rightarrow> nat list \<Rightarrow> mask \<times> ids3 \<Rightarrow> py_error + mask \<times> ids3" where
  "add_eos indices [] st = Inr st"
| "add_eos indices (i # is) (m, x) =
     (if i < length indices then
        (case set_item m i (indices ! i) True of
           Inl e \<Rightarrow> Inl e
         | Inr m' \<Rightarrow>
             (case fill_item x i (indices ! i) AUDIO_EOS_TOKEN_ID of
                Inl e \<Rightarrow> Inl e
              | Inr x' \<Rightarrow> add_eos indices is (m', x')))
      else Inl IndexError)"

record assembled =
  extended_audio_attention_mask :: mask
  extended_audio_input_ids :: ids3
  input_ids :: ids3
  attention_mask :: mask
  text_mask :: mask
  labels :: ids3

text \<open>Line 210: the quantizer's ids with the padding positions set to the pad id.\<close>

definition pad_audio_ids :: "mask \<Rightarrow> ids3 \<Rightarrow> ids3" where
  "pad_audio_ids audio_attention_mask dvae_audio_input_ids =
     mask_assign (invert_mask audio_attention_mask) AUDIO_PAD_TOKEN_ID dvae_audio_input_ids"

text \<open>
  \<open>IGNORE_TOKEN_ID\<close> is \<open>LabelSmoother.ignore_index\<close> of the transformers library and
  \<open>num_vq\<close> is \<open>gpt.num_vq\<close>; \<open>dvae_audio_input_ids\<close> is what the quantizer returned
  for the batch (line 209).
\<close>

definition assemble ::
  "int \<Rightarrow> nat \<Rightarrow> ids2 \<Rightarrow> mask \<Rightarrow> mask \<Rightarrow> ids3 \<Rightarrow> py_error + assembled" where
  "assemble IGNORE_TOKEN_ID num_vq text_input_ids text_attention_mask audio_attention_mask
       dvae_audio_input_ids =
     (let batch_size = length text_attention_mask;
          ids = pad_audio_ids audio_attention_mask dvae_audio_input_ids;
          ext_mask0 = cat1 audio_attention_mask (replicate batch_size [False]);
          ext_ids0 = cat1 ids (replicate batch_size [replicate num_vq (AUDIO_PAD_TOKEN_ID * 1)]);
          indices = row_sums audio_attention_mask
      in case add_eos indices [0..<batch_size] (ext_mask0, ext_ids0) of
           Inl e \<Rightarrow> Inl e
         | Inr (ext_mask, ext_ids) \<Rightarrow>
             (let inp = cat1 (map (map (replicate num_vq)) text_input_ids) ext_ids;
                  att = cat1 text_attention_mask ext_mask;
                  tm = cat1 (map (map (\<lambda>_. True)) text_attention_mask)
                            (map (map (\<lambda>_. False)) ext_mask)
              in Inr \<lparr>extended_audio_attention_mask = ext_mask,
                      extended_audio_input_ids = ext_ids,
                      input_ids = inp,
                      attention_mask = att,
                      text_mask = tm,
                      labels = mask_assign (invert_mask att) IGNORE_TOKEN_ID inp\<rparr>))"

text \<open>The shapes the collator and the quantizer deliver (the comments of lines 200 to
  209): one row per example in every grid, text ids and text mask of one length per row,
  audio ids and audio mask of one length per row, \<open>num_vq\<close> slots per audio frame.\<close>

definition wf_batch :: "nat \<Rightarrow> ids2 \<Rightarrow> mask \<Rightarrow> mask \<Rightarrow> ids3 \<Rightarrow> bool" where
  "wf_batch num_vq text_input_ids text_attention_mask audio_attention_mask
       dvae_audio_input_ids =
     (length text_input_ids = length text_attention_mask \<and>
      length audio_attention_mask = length text_attention_mask \<and>
      length dvae_audio_input_ids = length text_attention_mask \<and>
      list_all2 (\<lambda>a b. length a = length b) text_input_ids text_attention_mask \<and>
      list_all2 (\<lambda>m x. length m = length x \<and> list_all (\<lambda>s. length s = num_vq) x)
        audio_attention_mask dvae_audio_input_ids)"

text \<open>A row whose valid entries are a left-aligned prefix.\<close>

definition left_aligned :: "bool list \<Rightarrow> bool" where
  "left_aligned row =
     (row = replicate (row_sum row) True @ replicate (length row - row_sum row) False)"

subsection \<open>Loss router (train_gpt, lines 276 to 297)\<close>

text \<open>Lines 277 and 278: \<open>hidden_states[:, :text_len-1]\<close> and
  \<open>hidden_states[:, text_len-1:-1]\<close>.\<close>

definition text_hidden_states :: "nat \<Rightarrow> 'h list list \<Rightarrow> 'h list list" where
  "text_hidden_states text_len hidden_states =
     map (py_slice_to (int text_len - 1)) hidden_states"

definition audio_hidden_states :: "nat \<Rightarrow> 'h list list \<Rightarrow> 'h list list" where
  "audio_hidden_states text_len hidden_states =
     map (py_slice (int text_len - 1) (- 1)) hidden_states"

text \<open>The text hidden states as the specification words them: positions 1 to
  \<open>text_len - 1\<close>.\<close>

definition spec_text_hidden_states :: "nat \<Rightarrow> 'h list list \<Rightarrow> 'h list list" where
  "spec_text_hidden_states text_len hidden_states =
     map (py_slice 1 (int text_len)) hidden_states"

text \<open>Line 280: \<open>torch.stack([gpt.head_code[i](h) for i in range(gpt.num_vq)], dim=2)\<close>;
  the caller raises on an empty list of heads.\<close>

definition stack_heads :: "nat \<Rightarrow> (nat \<Rightarrow> 'h \<Rightarrow> 'lg) \<Rightarrow> 'h list list \<Rightarrow> 'lg list list list" where
  "stack_heads num_vq head_code hs = map (map (\<lambda>h. map (\<lambda>i. head_code i h) [0..<num_vq])) hs"

text \<open>\<open>x.flatten(0, 2)\<close> of a grid with three leading axes and \<open>x.flatten(0, 1)\<close> of one
  with two.\<close>

definition flatten02 :: "'a list list list \<Rightarrow> 'a list" where
  "flatten02 x = concat (map concat x)"

definition flatten01 :: "'a list list \<Rightarrow> 'a list" where
  "flatten01 x = concat x"

text \<open>\<open>g[:, :, 0]\<close>: IndexError when the slot axis is empty.\<close>

definition first_slot :: "ids3 \<Rightarrow> py_error + ids2" where
  "first_slot g =
     (if list_all (list_all (\<lambda>slots. slots \<noteq> [])) g then Inr (map (map hd) g)
      else Inl IndexError)"

text \<open>A call of \<open>loss_fn = torch.nn.CrossEntropyLoss()\<close> on \<open>n\<close> logit vectors and \<open>m\<close>
  targets: ValueError unless \<open>n = m\<close>. What it returns is the library's.\<close>

definition ce_call :: "('lg list \<Rightarrow> int list \<Rightarrow> real) \<Rightarrow> 'lg list \<Rightarrow> int list \<Rightarrow> py_error + real" where
  "ce_call loss_fn logits targets =
     (if length logits = length targets then Inr (loss_fn logits targets) else Inl ValueError)"

text \<open>The values the meters receive (lines 290 and 303 to 305). Line 285 binds \<open>loss\<close>
  to the tensor \<open>audio_loss\<close> names and \<open>+=\<close> updates that tensor in place, so both
  names read the total after line 297.\<close>

record losses =
  loss :: real
  audio_loss :: real
  text_loss :: "real option"
  mse_loss :: real

text \<open>Lines 286 to 288, the text branch; \<open>None\<close> when the flag is off.\<close>

definition text_branch ::
  "('h \<Rightarrow> 'lg) \<Rightarrow> ('lg list \<Rightarrow> int list \<Rightarrow> real) \<Rightarrow> bool \<Rightarrow> nat \<Rightarrow> 'h list list \<Rightarrow> ids3
   \<Rightarrow> py_error + real option" where
  "text_branch head_text loss_fn train_text text_len hidden_states lbls =
     (if train_text then
        (case first_slot (map (py_slice 1 (int text_len)) lbls) of
           Inl e \<Rightarrow> Inl e
         | Inr targets \<Rightarrow>
             (case ce_call loss_fn
                     (flatten01 (map (map head_text) (text_hidden_states text_len hidden_states)))
                     (flatten01 targets) of
                Inl e \<Rightarrow> Inl e
              | Inr t \<Rightarrow> Inr (Some t)))
      else Inr None)"

text \<open>
  \<open>head_code\<close>, \<open>head_text\<close> are the projection heads of the sequence model, \<open>decoder_fwd\<close>
  is the frozen decoder applied to the audio hidden states without their last position
  (line 292), \<open>mse_fn\<close> is \<open>torch.nn.functional.mse_loss\<close>, \<open>hidden_states\<close> is
  \<open>outputs.last_hidden_state\<close> and \<open>lbls\<close> the label grid.
\<close>

definition loss_router ::
  "nat \<Rightarrow> (nat \<Rightarrow> 'h \<Rightarrow> 'lg) \<Rightarrow> ('h \<Rightarrow> 'lg) \<Rightarrow> ('lg list \<Rightarrow> int list \<Rightarrow> real) \<Rightarrow>
   ('h list list \<Rightarrow> 'mel) \<Rightarrow> ('mel \<Rightarrow> 'mel \<Rightarrow> real) \<Rightarrow> bool \<Rightarrow> nat \<Rightarrow> 'h list list \<Rightarrow> ids3 \<Rightarrow>
   'mel \<Rightarrow> py_error + losses" where
  "loss_router num_vq head_code head_text loss_fn decoder_fwd mse_fn train_text text_len
       hidden_states lbls audio_mel_specs =
     (let ahs = audio_hidden_states text_len hidden_states
      in if num_vq = 0 then Inl RuntimeError
         else
           (case ce_call loss_fn (flatten02 (stack_heads num_vq head_code ahs))
                   (flatten02 (map (py_slice_from (int text_len)) lbls)) of
              Inl e \<Rightarrow> Inl e
            | Inr a \<Rightarrow>
                (case text_branch head_text loss_fn train_text text_len hidden_states lbls of
                   Inl e \<Rightarrow> Inl e
                 | Inr t \<Rightarrow>
                     (let l1 = (case t of None \<Rightarrow> a | Some tv \<Rightarrow> a + tv);
                          mse = mse_fn (decoder_fwd (map (py_slice_to (- 1)) ahs)) audio_mel_specs;
                          l2 = l1 + 0.01 * mse
                      in Inr \<lparr>loss = l2, audio_loss = l2, text_loss = t, mse_loss = mse\<rparr>))))"

text \<open>The shapes the router is called on: one row of hidden states per row of labels
  and of the same length, which covers the text positions; \<open>num_vq\<close> slots per label
  position; at least one codebook and one text position.\<close>

definition wf_router :: "nat \<Rightarrow> nat \<Rightarrow> 'h list list \<Rightarrow> ids3 \<Rightarrow> bool" where
  "wf_router num_vq text_len hidden_states lbls =
     (0 < num_vq \<and> 0 < text_len \<and>
      list_all2 (\<lambda>h l. length h = length l \<and> text_len \<le> length l \<and>
                        list_all (\<lambda>s. length s = num_vq) l) hidden_states lbls)"

text \<open>Modelled from the spec: the cross-entropy of the torch library and the ignore index
  of the torch and transformers libraries are not under src/. The ignore sentinel is a
  reserved label value meaning "exclude this position from loss computation":
  \<open>IGNORE_TOKEN_ID\<close> of line 27 is \<open>LabelSmoother.ignore_index\<close>, the loss of line 179 is
  built with its default \<open>ignore_index\<close>, and both are -100. The loss is the mean, over
  the targets that are not the sentinel, of the loss \<open>nll\<close> of one logit vector against
  one target; \<open>nan\<close> stands for what the library returns when no target is left.\<close>

definition LabelSmoother_ignore_index :: int where
  "LabelSmoother_ignore_index = - 100"

definition CrossEntropyLoss_ignore_index :: int where
  "CrossEntropyLoss_ignore_index = - 100"

definition CrossEntropyLoss :: "('lg \<Rightarrow> int \<Rightarrow> real) \<Rightarrow> real \<Rightarrow> 'lg list \<Rightarrow> int list \<Rightarrow> real" where
  "CrossEntropyLoss nll nan logits targets =
     (let kept = filter (\<lambda>(lg, t). t \<noteq> CrossEntropyLoss_ignore_index) (zip logits targets)
      in if kept = [] then nan
         else sum_list (map (\<lambda>(lg, t). nll lg t) kept) / real (length kept))"

text \<open>The shapes of one training step: a batch as the collator and the quantizer deliver
  it, \<open>text_len\<close> the width of its text grids (line 206), at least one codebook and one
  text position, and one row of hidden states per example, of the combined length (line
  276).\<close>

definition wf_step :: "nat \<Rightarrow> nat \<Rightarrow> ids2 \<Rightarrow> mask \<Rightarrow> mask \<Rightarrow> ids3 \<Rightarrow> 'h list list \<Rightarrow> bool" where
  "wf_step num_vq text_len text_input_ids text_attention_mask audio_attention_mask
       dvae_audio_input_ids hidden_states =
     (wf_batch num_vq text_input_ids text_attention_mask audio_attention_mask
        dvae_audio_input_ids \<and>
      0 < num_vq \<and> 0 < text_len \<and>
      list_all (\<lambda>row. length row = text_len) text_attention_mask \<and>
      list_all2 (\<lambda>h a. length h = text_len + length a + 1) hidden_states audio_attention_mask)"

subsection \<open>Speaker embedding insertion (train_gpt, lines 267 to 274)\<close>

text \<open>\<open>torch.all(input_ids == SPEAKER_TOKEN_ID, dim=-1)\<close>\<close>

definition all_speaker_token :: "int \<Rightarrow> ids3 \<Rightarrow> mask" where
  "all_speaker_token SPEAKER_TOKEN_ID ids =
     map (map (list_all (\<lambda>s. s = SPEAKER_TOKEN_ID))) ids"

text \<open>\<open>row[sel] = v.unsqueeze(0)\<close> for a boolean selector over the positions of a row.\<close>

definition assign_where :: "bool list \<Rightarrow> 'e \<Rightarrow> 'e list \<Rightarrow> 'e list" where
  "assign_where sel v row = map2 (\<lambda>b e. if b then v else e) sel row"

text \<open>The loop of lines 268 to 274 over \<open>enumerate(speakers)\<close>. The right-hand side is
  evaluated first, so a speaker missing from the table is a KeyError. \<open>l2_normalize\<close> is
  \<open>torch.nn.functional.normalize\<close> with \<open>p=2.0\<close> along the last axis.\<close>

fun insert_speakers ::
  "('e \<Rightarrow> 'e) \<Rightarrow> (string \<rightharpoonup> 'e) \<Rightarrow> mask \<Rightarrow> (nat \<times> string) list \<Rightarrow> 'e list list
   \<Rightarrow> py_error + 'e list list" where
  "insert_speakers l2_normalize embeds indices [] inputs_embeds = Inr inputs_embeds"
| "insert_speakers l2_normalize embeds indices ((i, speaker) # rest) inputs_embeds =
     (case embeds speaker of
        None \<Rightarrow> Inl KeyError
      | Some v \<Rightarrow>
          (if i < length inputs_embeds \<and> i < length indices then
             insert_speakers l2_normalize embeds indices rest
               (inputs_embeds[i := assign_where (indices ! i) (l2_normalize v) (inputs_embeds ! i)])
           else Inl IndexError))"

definition embed_speakers ::
  "int \<Rightarrow> ('e \<Rightarrow> 'e) \<Rightarrow> (string \<rightharpoonup> 'e) \<Rightarrow> string list \<Rightarrow> ids3 \<Rightarrow> 'e list list
   \<Rightarrow> py_error + 'e list list" where
  "embed_speakers SPEAKER_TOKEN_ID l2_normalize embeds speakers ids inputs_embeds =
     insert_speakers l2_normalize embeds (all_speaker_token SPEAKER_TOKEN_ID ids)
       (zip [0..<length speakers] speakers) inputs_embeds"

subsection \<open>Modules, the speaker table and the optimizer (train_gpt, lines 131 to 180)\<close>

text \<open>What \<open>.train()\<close>, \<open>.eval()\<close> and \<open>.requires_grad_()\<close> set on a module.\<close>

record module_flags =
  training :: bool
  grad_enabled :: bool

definition eval_frozen :: module_flags where
  "eval_frozen = \<lparr>training = False, grad_enabled = False\<rparr>"

definition train_unfrozen :: module_flags where
  "train_unfrozen = \<lparr>training = True, grad_enabled = True\<rparr>"

record gpt_modules =
  decoder_decoder :: module_flags
  decoder_encoder :: module_flags
  dvae_decoder :: module_flags
  dvae_encoder :: module_flags
  gpt :: module_flags

record speaker_embed =
  data :: "real list"
  requires_grad :: bool

text \<open>Lines 153 to 159: a fresh \<open>torch.randn\<close> vector per speaker of the dataset
  (\<open>randn\<close> gives the draw for each speaker), merged with the supplied table by \<open>|\<close>,
  whose right operand wins.\<close>

definition fresh_speaker_embeds ::
  "(string \<Rightarrow> real list) \<Rightarrow> TrainModule \<Rightarrow> string list \<Rightarrow> (string \<rightharpoonup> speaker_embed)" where
  "fresh_speaker_embeds randn train_module speakers =
     (\<lambda>speaker. if speaker \<in> set speakers
        then Some \<lparr>data = randn speaker,
                   requires_grad = (train_module \<in> set [GPT_SPEAKER, SPEAKER])\<rparr>
        else None)"

definition merge_speaker_embeds ::
  "(string \<Rightarrow> real list) \<Rightarrow> TrainModule \<Rightarrow> string list \<Rightarrow> (string \<rightharpoonup> speaker_embed)
   \<Rightarrow> (string \<rightharpoonup> speaker_embed)" where
  "merge_speaker_embeds randn train_module speakers supplied =
     fresh_speaker_embeds randn train_module speakers ++ supplied"

text \<open>Lines 160 to 162: \<open>std\<close> and \<open>mean\<close> are the two chunks of the pretrained
  \<open>spk_stat\<close>; the loop runs over all values of the merged table. The vectors are taken to
  have the length of \<open>std\<close> and \<open>mean\<close>.\<close>

definition scale_shift :: "real list \<Rightarrow> real list \<Rightarrow> real list \<Rightarrow> real list" where
  "scale_shift std mean v = map2 (+) (map2 (*) v std) mean"

definition normalize_speaker_embeds ::
  "real list \<Rightarrow> real list \<Rightarrow> (string \<rightharpoonup> speaker_embed) \<Rightarrow> (string \<rightharpoonup> speaker_embed)" where
  "normalize_speaker_embeds std mean table =
     (\<lambda>speaker. map_option (\<lambda>e. e\<lparr>data := scale_shift std mean (data e)\<rparr>) (table speaker))"

definition speaker_table ::
  "(string \<Rightarrow> real list) \<Rightarrow> real list \<Rightarrow> real list \<Rightarrow> TrainModule \<Rightarrow> string list
   \<Rightarrow> (string \<rightharpoonup> speaker_embed) \<Rightarrow> (string \<rightharpoonup> speaker_embed)" where
  "speaker_table randn std mean train_module speakers supplied =
     normalize_speaker_embeds std mean (merge_speaker_embeds randn train_module speakers supplied)"

text \<open>The trainable tensors: the parameters of the sequence model, and one vector per
  speaker of the table.\<close>

datatype param = GptParameters | SpeakerEmbed string

record optimizer =
  param_groups :: "(param set \<times> real) list"

datatype event = ZeroGrad | Backward | ClipGradNorm "param set" real | OptimizerStep | SchedulerStep

text \<open>Lines 299 to 302 for one batch, line 306 after each epoch, line 307 at the end:
  the calls of a run of \<open>epochs\<close> epochs over a loader of \<open>n_batches\<close> batches in which
  no forward pass raises.\<close>

definition batch_events :: "param set \<Rightarrow> event list" where
  "batch_events train_params = [ZeroGrad, Backward, ClipGradNorm train_params 1.0, OptimizerStep]"

definition run_events :: "param set \<Rightarrow> nat \<Rightarrow> nat \<Rightarrow> event list" where
  "run_events train_params epochs n_batches =
     concat (replicate epochs
       (concat (replicate n_batches (batch_events train_params)) @ [SchedulerStep])) @ [ZeroGrad]"

record gpt_run =
  modules :: gpt_modules
  speaker_embeds :: "string \<rightharpoonup> speaker_embed"
  train_params :: "param set"
  optimizer :: optimizer
  events :: "event list"

text \<open>Lines 168 to 177: the \<open>match\<close> binds \<open>train_params\<close> and \<open>optimizer\<close> per case; a
  name no case binds stays unbound.\<close>

definition match_train_module ::
  "TrainModule \<Rightarrow> param set \<Rightarrow> param set option \<times> optimizer option" where
  "match_train_module train_module speaker_params =
     (case train_module of
        GPT_SPEAKER \<Rightarrow>
          (Some (insert GptParameters speaker_params),
           Some \<lparr>param_groups = [({GptParameters}, 0.001), (speaker_params, 0.1)]\<rparr>)
      | GPT \<Rightarrow> (Some {GptParameters}, None)
      | SPEAKER \<Rightarrow>
          (Some speaker_params, Some \<lparr>param_groups = [(speaker_params, 0.01)]\<rparr>)
      | _ \<Rightarrow> (None, None))"

text \<open>\<open>train_gpt\<close>: the freeze policy of lines 133 to 151, the speaker table, the
  optimizer, and the loop. Line 180 reads \<open>optimizer\<close>, line 301 \<open>train_params\<close>.\<close>

definition train_gpt ::
  "(string \<Rightarrow> real list) \<Rightarrow> real list \<Rightarrow> real list \<Rightarrow> string list \<Rightarrow> gpt_modules \<Rightarrow> TrainModule
   \<Rightarrow> nat \<Rightarrow> nat \<Rightarrow> (string \<rightharpoonup> speaker_embed) \<Rightarrow> py_error + gpt_run" where
  "train_gpt randn std mean speakers pretrain_models train_module epochs n_batches supplied =
     (let mods = pretrain_models
            \<lparr>decoder_decoder := eval_frozen, decoder_encoder := eval_frozen,
             dvae_decoder := eval_frozen, dvae_encoder := eval_frozen,
             gpt := (if train_module = SPEAKER then eval_frozen else train_unfrozen)\<rparr>;
          table = speaker_table randn std mean train_module speakers supplied
      in case match_train_module train_module (SpeakerEmbed ` dom table) of
           (_, None) \<Rightarrow> Inl UnboundLocalError
         | (None, Some opt) \<Rightarrow> Inl UnboundLocalError
         | (Some ps, Some opt) \<Rightarrow>
             Inr \<lparr>modules = mods, speaker_embeds = table, train_params = ps,
                  optimizer = opt, events = run_events ps epochs n_batches\<rparr>)"

subsection \<open>Autoencoder stage (train_autoencoder) and what the driver saves (main)\<close>

text \<open>Module objects live in a store, addressed by their position: the encoder
  instances (class DVAEEncoder) and the decoders (class DVAE, with the \<open>vq_layer\<close>
  attribute). \<open>'w\<close> stands for a module's weights, \<open>'q\<close> for a quantization layer.\<close>

record 'w encoder_obj =
  enc_weights :: 'w
  enc_flags :: module_flags

record ('w, 'q) decoder_obj =
  dec_weights :: 'w
  dec_flags :: module_flags
  vq_layer :: "'q option"

record ('w, 'q) store =
  encoders :: "'w encoder_obj list"
  decoders :: "('w, 'q) decoder_obj list"

text \<open>Line 55: a new DVAEEncoder, with the weights its constructor draws; a new module
  is in training mode with gradients enabled.\<close>

definition new_encoder :: "'w \<Rightarrow> ('w, 'q) store \<Rightarrow> nat \<times> ('w, 'q) store" where
  "new_encoder w s =
     (length (encoders s),
      s\<lparr>encoders := encoders s @ [\<lparr>enc_weights = w, enc_flags = train_unfrozen\<rparr>]\<rparr>)"

definition set_enc_flags :: "nat \<Rightarrow> module_flags \<Rightarrow> ('w, 'q) store \<Rightarrow> ('w, 'q) store" where
  "set_enc_flags e f s = s\<lparr>encoders := (encoders s)[e := (encoders s ! e)\<lparr>enc_flags := f\<rparr>]\<rparr>"

definition set_dec_flags :: "nat \<Rightarrow> module_flags \<Rightarrow> ('w, 'q) store \<Rightarrow> ('w, 'q) store" where
  "set_dec_flags d f s = s\<lparr>decoders := (decoders s)[d := (decoders s ! d)\<lparr>dec_flags := f\<rparr>]\<rparr>"

definition set_vq_layer :: "nat \<Rightarrow> 'q option \<Rightarrow> ('w, 'q) store \<Rightarrow> ('w, 'q) store" where
  "set_vq_layer d q s = s\<lparr>decoders := (decoders s)[d := (decoders s ! d)\<lparr>vq_layer := q\<rparr>]\<rparr>"

text \<open>Lines 98 to 113, one batch: \<open>sgd\<close> gives the weights that forward, backward, clip
  and optimizer step produce for the encoder and the decoder from the batch, the local
  \<open>vq_layer\<close> and the current weights; the optimizer writes those of the modules among its
  parameters.\<close>

definition ae_step ::
  "('b \<Rightarrow> 'q option \<Rightarrow> 'w \<Rightarrow> 'w \<Rightarrow> 'w \<times> 'w) \<Rightarrow> bool \<Rightarrow> bool \<Rightarrow> 'q option \<Rightarrow> nat \<Rightarrow> nat \<Rightarrow> 'b
   \<Rightarrow> ('w, 'q) store \<Rightarrow> ('w, 'q) store" where
  "ae_step sgd train_enc train_dec vq e d batch s =
     (let (we, wd) = sgd batch vq (enc_weights (encoders s ! e)) (dec_weights (decoders s ! d))
      in s\<lparr>encoders := (if train_enc then (encoders s)[e := (encoders s ! e)\<lparr>enc_weights := we\<rparr>]
                        else encoders s),
           decoders := (if train_dec then (decoders s)[d := (decoders s ! d)\<lparr>dec_weights := wd\<rparr>]
                        else decoders s)\<rparr>)"

text \<open>The loops of lines 90 and 97, one list of batches per epoch: the stores after
  each batch, in the order the run passes through them.\<close>

fun scan_batches :: "('b \<Rightarrow> 's \<Rightarrow> 's) \<Rightarrow> 's \<Rightarrow> 'b list \<Rightarrow> 's list" where
  "scan_batches step s [] = []"
| "scan_batches step s (b # bs) = step b s # scan_batches step (step b s) bs"

fun scan_epochs :: "('b \<Rightarrow> 's \<Rightarrow> 's) \<Rightarrow> 's \<Rightarrow> 'b list list \<Rightarrow> 's list" where
  "scan_epochs step s [] = []"
| "scan_epochs step s (e # es) =
     scan_batches step s e @ scan_epochs step (last (s # scan_batches step s e)) es"

text \<open>Lines 79 to 117 once the modes are set: detach the layer (line 80), train, put it
  back (line 117). The first component lists the stores of the run from line 80 to line
  116, the one the loops start from first; the second is the store at exit.\<close>

definition ae_train_trace ::
  "('b \<Rightarrow> 'q option \<Rightarrow> 'w \<Rightarrow> 'w \<Rightarrow> 'w \<times> 'w) \<Rightarrow> bool \<Rightarrow> bool \<Rightarrow> nat \<Rightarrow> nat \<Rightarrow> 'b list list
   \<Rightarrow> ('w, 'q) store \<Rightarrow> ('w, 'q) store list \<times> ('w, 'q) store" where
  "ae_train_trace sgd train_enc train_dec e d loader s =
     (let vq = vq_layer (decoders s ! d);
          s1 = set_vq_layer d None s;
          during = s1 # scan_epochs (ae_step sgd train_enc train_dec vq e d) s1 loader
      in (during, set_vq_layer d vq (last during)))"

text \<open>\<open>train_autoencoder\<close>: \<open>encoder\<close> and \<open>decoder\<close> are the addresses the caller passes,
  \<open>fresh\<close> the weights of the encoder line 55 constructs, \<open>loader\<close> the batches of each
  epoch. Line 55 rebinds \<open>encoder\<close>. A mode outside the three cases of the \<open>match\<close> leaves
  \<open>train_params\<close> unbound for line 75. \<open>train_autoencoder_trace\<close> gives the stores during
  training next to the store at return, \<open>train_autoencoder\<close> the store at return.\<close>

definition train_autoencoder_trace ::
  "('b \<Rightarrow> 'q option \<Rightarrow> 'w \<Rightarrow> 'w \<Rightarrow> 'w \<times> 'w) \<Rightarrow> 'w \<Rightarrow> nat \<Rightarrow> nat \<Rightarrow> TrainModule \<Rightarrow> 'b list list
   \<Rightarrow> ('w, 'q) store \<Rightarrow> py_error + ('w, 'q) store list \<times> ('w, 'q) store" where
  "train_autoencoder_trace sgd fresh encoder decoder train_module loader s =
     (let (encoder', s1) = new_encoder fresh s
      in case train_module of
           AUTOENCODER \<Rightarrow>
             Inr (ae_train_trace sgd True True encoder' decoder loader
                    (set_dec_flags decoder train_unfrozen
                       (set_enc_flags encoder' train_unfrozen s1)))
         | ENCODER \<Rightarrow>
             Inr (ae_train_trace sgd True False encoder' decoder loader
                    (set_dec_flags decoder eval_frozen
                       (set_enc_flags encoder' train_unfrozen s1)))
         | DECODER \<Rightarrow>
             Inr (ae_train_trace sgd False True encoder' decoder loader
                    (set_dec_flags decoder train_unfrozen
                       (set_enc_flags encoder' eval_frozen s1)))
         | _ \<Rightarrow> Inl UnboundLocalError)"

definition train_autoencoder ::
  "('b \<Rightarrow> 'q option \<Rightarrow> 'w \<Rightarrow> 'w \<Rightarrow> 'w \<times> 'w) \<Rightarrow> 'w \<Rightarrow> nat \<Rightarrow> nat \<Rightarrow> TrainModule \<Rightarrow> 'b list list
   \<Rightarrow> ('w, 'q) store \<Rightarrow> py_error + ('w, 'q) store" where
  "train_autoencoder sgd fresh encoder decoder train_module loader s =
     map_sum id snd (train_autoencoder_trace sgd fresh encoder decoder train_module loader s)"

text \<open>The checkpoints a run may load (lines 390 to 397), \<open>None\<close> for a path not given.\<close>

record 'w checkpoints =
  decoder_encoder_path :: "'w option"
  decoder_decoder_path :: "'w option"
  dvae_encoder_path :: "'w option"
  dvae_decoder_path :: "'w option"

definition load_state_dict :: "'w option \<Rightarrow> 'w \<Rightarrow> 'w" where
  "load_state_dict path w = (case path of None \<Rightarrow> w | Some w' \<Rightarrow> w')"

text \<open>Lines 379 to 397: the two pretrained decoders are objects 0 and 1 of the decoder
  store, the two encoders the driver constructs are objects 0 and 1 of the encoder store
  (\<open>decoder_encoder\<close> and \<open>dvae_encoder\<close>).\<close>

definition main_store ::
  "'w \<Rightarrow> 'w \<Rightarrow> ('w, 'q) decoder_obj \<Rightarrow> ('w, 'q) decoder_obj \<Rightarrow> 'w checkpoints \<Rightarrow> ('w, 'q) store" where
  "main_store fresh0 fresh1 pre_decoder pre_dvae paths =
     \<lparr>encoders =
        [\<lparr>enc_weights = load_state_dict (decoder_encoder_path paths) fresh0,
          enc_flags = train_unfrozen\<rparr>,
         \<lparr>enc_weights = load_state_dict (dvae_encoder_path paths) fresh1,
          enc_flags = train_unfrozen\<rparr>],
      decoders =
        [pre_decoder\<lparr>dec_weights := load_state_dict (decoder_decoder_path paths) (dec_weights pre_decoder)\<rparr>,
         pre_dvae\<lparr>dec_weights := load_state_dict (dvae_decoder_path paths) (dec_weights pre_dvae)\<rparr>]\<rparr>"

text \<open>Lines 460 to 484, the autoencoder cases: the files written under the save folder,
  by name.\<close>

definition save_autoencoder ::
  "TrainModule \<Rightarrow> DecoderType \<Rightarrow> ('w, 'q) store \<Rightarrow> (string \<times> 'w) list" where
  "save_autoencoder train_module decoder_type s =
     (let decoder_encoder_w = enc_weights (encoders s ! 0);
          dvae_encoder_w = enc_weights (encoders s ! 1);
          decoder_decoder_w = dec_weights (decoders s ! 0);
          dvae_decoder_w = dec_weights (decoders s ! 1)
      in case train_module of
           AUTOENCODER \<Rightarrow>
             (if decoder_type = DecoderType_DECODER
              then [(''decoder_encoder.pth'', decoder_encoder_w),
                    (''decoder_decoder.pth'', decoder_decoder_w)]
              else [(''dvae_encoder.pth'', dvae_encoder_w),
                    (''dvae_decoder.pth'', dvae_decoder_w)])
         | ENCODER \<Rightarrow>
             (if decoder_type = DecoderType_DECODER
              then [(''decoder_encoder.pth'', decoder_encoder_w)]
              else [(''dvae_encoder.pth'', dvae_encoder_w)])
         | DECODER \<Rightarrow>
             (if decoder_type = DecoderType_DECODER
              then [(''decoder_decoder.pth'', decoder_decoder_w)]
              else [(''dvae_decoder.pth'', dvae_decoder_w)])
         | _ \<Rightarrow> [])"

text \<open>\<open>main\<close> on the else branch of line 438 (lines 439 to 446), followed by the save:
  \<open>fresh0\<close>, \<open>fresh1\<close> and \<open>fresh2\<close> are the weights the three DVAEEncoder constructions
  of the run draw, in order.\<close>

definition main_autoencoder ::
  "('b \<Rightarrow> 'q option \<Rightarrow> 'w \<Rightarrow> 'w \<Rightarrow> 'w \<times> 'w) \<Rightarrow> 'w \<Rightarrow> 'w \<Rightarrow> 'w \<Rightarrow> ('w, 'q) decoder_obj
   \<Rightarrow> ('w, 'q) decoder_obj \<Rightarrow> 'w checkpoints \<Rightarrow> TrainModule \<Rightarrow> DecoderType \<Rightarrow> 'b list list
   \<Rightarrow> py_error + (string \<times> 'w) list \<times> ('w, 'q) store" where
  "main_autoencoder sgd fresh0 fresh1 fresh2 pre_decoder pre_dvae paths train_module
       decoder_type loader =
     (let s = main_store fresh0 fresh1 pre_decoder pre_dvae paths;
          encoder = (if decoder_type = DecoderType_DECODER then 0 else 1);
          decoder = (if decoder_type = DecoderType_DECODER then 0 else 1)
      in case train_autoencoder sgd fresh2 encoder decoder train_module loader s of
           Inl e \<Rightarrow> Inl e
         | Inr s' \<Rightarrow> Inr (save_autoencoder train_module decoder_type s', s'))"

section \<open>Properties of the sequence assembler\<close>

lemma add_eos_rows:
  "distinct is \<Longrightarrow>
   (\<forall>i\<in>set is. i < length indices \<and> i < length m \<and> i < length x \<and>
        indices ! i < length (m ! i) \<and> indices ! i < length (x ! i)) \<Longrightarrow>
   \<exists>m' x'. add_eos indices is (m, x) = Inr (m', x') \<and>
      length m' = length m \<and> length x' = length x \<and>
      (\<forall>i<length m. m' ! i = (if i \<in> set is then (m ! i)[indices ! i := True] else m ! i)) \<and>
      (\<forall>i<length x. x' ! i =
          (if i \<in> set is
           then (x ! i)[indices ! i := map (\<lambda>_. AUDIO_EOS_TOKEN_ID) (x ! i ! (indices ! i))]
           else x ! i))"
proof (induction "is" arbitrary: m x)
  case Nil
  then show ?case by simp
next
  case (Cons i "is")
  let ?m1 = "m[i := (m ! i)[indices ! i := True]]"
  let ?x1 = "x[i := (x ! i)[indices ! i := map (\<lambda>_. AUDIO_EOS_TOKEN_ID) (x ! i ! (indices ! i))]]"
  from Cons.prems have i: "i < length indices" "i < length m" "i < length x"
    "indices ! i < length (m ! i)" "indices ! i < length (x ! i)" "i \<notin> set is" "distinct is"
    by auto
  have step: "add_eos indices (i # is) (m, x) = add_eos indices is (?m1, ?x1)"
    using i by (simp add: set_item_def fill_item_def)
  have pre: "\<forall>j\<in>set is. j < length indices \<and> j < length ?m1 \<and> j < length ?x1 \<and>
        indices ! j < length (?m1 ! j) \<and> indices ! j < length (?x1 ! j)"
    using Cons.prems i by (auto simp: nth_list_update)
  from Cons.IH[OF i(7) pre] obtain m' x' where r:
    "add_eos indices is (?m1, ?x1) = Inr (m', x')" "length m' = length m" "length x' = length x"
    "\<forall>j<length m. m' ! j = (if j \<in> set is then (?m1 ! j)[indices ! j := True] else ?m1 ! j)"
    "\<forall>j<length x. x' ! j = (if j \<in> set is
           then (?x1 ! j)[indices ! j := map (\<lambda>_. AUDIO_EOS_TOKEN_ID) (?x1 ! j ! (indices ! j))]
           else ?x1 ! j)"
    by auto
  show ?case
    apply (rule exI[of _ m'], rule exI[of _ x'])
    using step r i by (auto simp: nth_list_update)
qed


lemma row_sum_le: "row_sum row \<le> length row"
  unfolding row_sum_def by (induction row) auto

lemma row_sum_append: "row_sum (a @ b) = row_sum a + row_sum b"
  unfolding row_sum_def by simp

lemma row_sum_set_True:
  "k < length xs \<Longrightarrow> \<not> xs ! k \<Longrightarrow> row_sum (xs[k := True]) = Suc (row_sum xs)"
  unfolding row_sum_def
proof (induction xs arbitrary: k)
  case Nil
  then show ?case by simp
next
  case (Cons x xs)
  then show ?case by (cases k) auto
qed

lemma row_sum_replicate: "row_sum (replicate n b) = (if b then n else 0)"
  unfolding row_sum_def by (induction n) auto

lemma left_aligned_marker_free:
  assumes "left_aligned row"
  shows "\<not> (row @ [False]) ! row_sum row"
proof (cases "row_sum row < length row")
  case True
  from assms have "row ! row_sum row =
      (replicate (row_sum row) True @ replicate (length row - row_sum row) False) ! row_sum row"
    unfolding left_aligned_def by simp
  also have "\<dots> = False" using True by (simp add: nth_append)
  finally show ?thesis using True by (simp add: nth_append)
next
  case False
  with row_sum_le[of row] have "row_sum row = length row" by simp
  then show ?thesis by (simp add: nth_append)
qed

lemma mask_assign_nth:
  "i < length m \<Longrightarrow> i < length x \<Longrightarrow> mask_assign m v x ! i = mask_assign_row (m ! i) v (x ! i)"
  by (simp add: mask_assign_def)

lemma length_mask_assign: "length (mask_assign m v x) = min (length m) (length x)"
  by (simp add: mask_assign_def)

lemma length_mask_assign_row: "length (mask_assign_row mrow v xrow) = min (length mrow) (length xrow)"
  by (simp add: mask_assign_row_def)

lemma mask_assign_row_nth:
  "t < length mrow \<Longrightarrow> t < length xrow \<Longrightarrow>
   mask_assign_row mrow v xrow ! t =
     (if mrow ! t then replicate (length (xrow ! t)) v else xrow ! t)"
  by (simp add: mask_assign_row_def map_replicate_const)

lemma pad_audio_ids_nth:
  "i < length am \<Longrightarrow> i < length x \<Longrightarrow>
   pad_audio_ids am x ! i = mask_assign_row (map Not (am ! i)) AUDIO_PAD_TOKEN_ID (x ! i)"
  by (simp add: pad_audio_ids_def mask_assign_nth invert_mask_def)

lemma length_pad_audio_ids: "length (pad_audio_ids am x) = min (length am) (length x)"
  by (simp add: pad_audio_ids_def length_mask_assign invert_mask_def)

lemma mask_assign_row_slots:
  "list_all (\<lambda>s. length s = n) xrow \<Longrightarrow> t < length (mask_assign_row mrow v xrow) \<Longrightarrow>
   length (mask_assign_row mrow v xrow ! t) = n"
  by (auto simp: mask_assign_row_def list_all_length)

lemma assemble_rows:
  assumes wf: "wf_batch num_vq ti tm am x"
  shows "\<exists>r. assemble ign num_vq ti tm am x = Inr r \<and>
     length (extended_audio_attention_mask r) = length tm \<and>
     length (extended_audio_input_ids r) = length tm \<and>
     (\<forall>i<length tm.
        extended_audio_attention_mask r ! i = (am ! i @ [False])[row_sum (am ! i) := True] \<and>
        extended_audio_input_ids r ! i =
          (mask_assign_row (map Not (am ! i)) AUDIO_PAD_TOKEN_ID (x ! i) @ [replicate num_vq AUDIO_PAD_TOKEN_ID])
            [row_sum (am ! i) := replicate num_vq AUDIO_EOS_TOKEN_ID]) \<and>
     input_ids r = cat1 (map (map (replicate num_vq)) ti) (extended_audio_input_ids r) \<and>
     attention_mask r = cat1 tm (extended_audio_attention_mask r) \<and>
     labels r = mask_assign (invert_mask (attention_mask r)) ign (input_ids r)"
proof -
  let ?B = "length tm"
  let ?m0 = "cat1 am (replicate ?B [False])"
  let ?x0 = "cat1 (pad_audio_ids am x) (replicate ?B [replicate num_vq (AUDIO_PAD_TOKEN_ID * 1)])"
  let ?ind = "row_sums am"
  from wf have len: "length ti = ?B" "length am = ?B" "length x = ?B"
    and rows: "\<And>i. i < ?B \<Longrightarrow> length (am ! i) = length (x ! i)"
    and slots: "\<And>i. i < ?B \<Longrightarrow> list_all (\<lambda>s. length s = num_vq) (x ! i)"
    by (auto simp: wf_batch_def list_all2_conv_all_nth)
  have m0: "length ?m0 = ?B" "\<And>i. i < ?B \<Longrightarrow> ?m0 ! i = am ! i @ [False]"
    using len by (simp_all add: cat1_def)
  have x0: "length ?x0 = ?B"
    "\<And>i. i < ?B \<Longrightarrow> ?x0 ! i = mask_assign_row (map Not (am ! i)) AUDIO_PAD_TOKEN_ID (x ! i) @ [replicate num_vq AUDIO_PAD_TOKEN_ID]"
    using len by (simp_all add: cat1_def length_pad_audio_ids pad_audio_ids_nth)
  have ind: "length ?ind = ?B" "\<And>i. i < ?B \<Longrightarrow> ?ind ! i = row_sum (am ! i)"
    using len by (simp_all add: row_sums_def)
  have pre: "\<forall>i\<in>set [0..<?B]. i < length ?ind \<and> i < length ?m0 \<and> i < length ?x0 \<and>
        ?ind ! i < length (?m0 ! i) \<and> ?ind ! i < length (?x0 ! i)"
  proof
    fix i assume "i \<in> set [0..<?B]"
    then have i: "i < ?B" by simp
    have "row_sum (am ! i) \<le> length (am ! i)" by (rule row_sum_le)
    then show "i < length ?ind \<and> i < length ?m0 \<and> i < length ?x0 \<and>
        ?ind ! i < length (?m0 ! i) \<and> ?ind ! i < length (?x0 ! i)"
      using i m0 x0 ind rows[OF i] by (simp add: length_mask_assign_row)
  qed
  from add_eos_rows[OF distinct_upt pre] obtain m' x' where r:
    "add_eos ?ind [0..<?B] (?m0, ?x0) = Inr (m', x')" "length m' = length ?m0" "length x' = length ?x0"
    "\<forall>i<length ?m0. m' ! i = (if i \<in> set [0..<?B] then (?m0 ! i)[?ind ! i := True] else ?m0 ! i)"
    "\<forall>i<length ?x0. x' ! i =
          (if i \<in> set [0..<?B]
           then (?x0 ! i)[?ind ! i := map (\<lambda>_. AUDIO_EOS_TOKEN_ID) (?x0 ! i ! (?ind ! i))]
           else ?x0 ! i)"
    by blast
  have mrow: "m' ! i = (am ! i @ [False])[row_sum (am ! i) := True]" if i: "i < ?B" for i
    using r(4) i m0 ind by simp
  have xrow: "x' ! i = (mask_assign_row (map Not (am ! i)) AUDIO_PAD_TOKEN_ID (x ! i) @ [replicate num_vq AUDIO_PAD_TOKEN_ID])
            [row_sum (am ! i) := replicate num_vq AUDIO_EOS_TOKEN_ID]" if i: "i < ?B" for i
  proof -
    let ?k = "row_sum (am ! i)"
    let ?row = "mask_assign_row (map Not (am ! i)) AUDIO_PAD_TOKEN_ID (x ! i) @ [replicate num_vq AUDIO_PAD_TOKEN_ID]"
    have k: "?k \<le> length (am ! i)" by (rule row_sum_le)
    have lp: "length (mask_assign_row (map Not (am ! i)) AUDIO_PAD_TOKEN_ID (x ! i)) = length (am ! i)"
      using rows[OF i] by (simp add: length_mask_assign_row)
    have "length (?row ! ?k) = num_vq"
    proof (cases "?k < length (am ! i)")
      case True
      then show ?thesis using mask_assign_row_slots[OF slots[OF i], of ?k "map Not (am ! i)" AUDIO_PAD_TOKEN_ID] lp
        by (simp add: nth_append)
    next
      case False
      with k have "?k = length (am ! i)" by simp
      then show ?thesis using lp by (simp add: nth_append)
    qed
    then have "map (\<lambda>_. AUDIO_EOS_TOKEN_ID) (?row ! ?k) = replicate num_vq AUDIO_EOS_TOKEN_ID"
      by (simp add: map_replicate_const)
    then show ?thesis using r(5) i x0 ind by simp
  qed
  show ?thesis
    unfolding assemble_def Let_def r(1)
    using r(2,3) m0(1) x0(1) mrow xrow by simp
qed


lemma row_sum_zero_iff: "row_sum row = 0 \<longleftrightarrow> True \<notin> set row"
  unfolding row_sum_def by (induction row) auto

text \<open>
  Claim C3. On every batch of the shapes the collator delivers the assembler returns
  without an exception, and in every row \<open>i\<close> the end-of-audio marker sits at the index
  that equals the number of true entries of that row's audio attention mask: there the
  extended mask is true and every codebook slot of the extended ids is the end-marker id.
  The index is inside the extended row, whose other entries are those of the padded audio
  row followed by one pad column. A row without a valid audio frame has the marker at
  index 0.
\<close>

theorem end_marker_at_valid_count:
  assumes wf: "wf_batch num_vq ti tm am x"
  shows "\<exists>r. assemble ign num_vq ti tm am x = Inr r \<and>
     (\<forall>i<length tm.
        row_sum (am ! i) < length (extended_audio_attention_mask r ! i) \<and>
        row_sum (am ! i) < length (extended_audio_input_ids r ! i) \<and>
        extended_audio_attention_mask r ! i ! row_sum (am ! i) \<and>
        extended_audio_input_ids r ! i ! row_sum (am ! i) = replicate num_vq AUDIO_EOS_TOKEN_ID \<and>
        extended_audio_attention_mask r ! i = (am ! i @ [False])[row_sum (am ! i) := True] \<and>
        extended_audio_input_ids r ! i =
          (mask_assign_row (map Not (am ! i)) AUDIO_PAD_TOKEN_ID (x ! i)
             @ [replicate num_vq AUDIO_PAD_TOKEN_ID])
            [row_sum (am ! i) := replicate num_vq AUDIO_EOS_TOKEN_ID] \<and>
        (True \<notin> set (am ! i) \<longrightarrow>
           extended_audio_attention_mask r ! i ! 0 \<and>
           extended_audio_input_ids r ! i ! 0 = replicate num_vq AUDIO_EOS_TOKEN_ID))"
proof -
  from assemble_rows[OF wf, of ign] obtain r where r: "assemble ign num_vq ti tm am x = Inr r"
    and rows: "\<forall>i<length tm.
        extended_audio_attention_mask r ! i = (am ! i @ [False])[row_sum (am ! i) := True] \<and>
        extended_audio_input_ids r ! i =
          (mask_assign_row (map Not (am ! i)) AUDIO_PAD_TOKEN_ID (x ! i)
             @ [replicate num_vq AUDIO_PAD_TOKEN_ID])
            [row_sum (am ! i) := replicate num_vq AUDIO_EOS_TOKEN_ID]"
    by blast
  from wf have lens: "\<And>i. i < length tm \<Longrightarrow> length (am ! i) = length (x ! i)"
    by (auto simp: wf_batch_def list_all2_conv_all_nth)
  have "row_sum (am ! i) < length (extended_audio_attention_mask r ! i) \<and>
        row_sum (am ! i) < length (extended_audio_input_ids r ! i) \<and>
        extended_audio_attention_mask r ! i ! row_sum (am ! i) \<and>
        extended_audio_input_ids r ! i ! row_sum (am ! i) = replicate num_vq AUDIO_EOS_TOKEN_ID \<and>
        (True \<notin> set (am ! i) \<longrightarrow>
           extended_audio_attention_mask r ! i ! 0 \<and>
           extended_audio_input_ids r ! i ! 0 = replicate num_vq AUDIO_EOS_TOKEN_ID)"
    if i: "i < length tm" for i
  proof -
    have k: "row_sum (am ! i) \<le> length (am ! i)" by (rule row_sum_le)
    have z: "True \<notin> set (am ! i) \<Longrightarrow> row_sum (am ! i) = 0" by (simp add: row_sum_zero_iff)
    show ?thesis using rows i k lens[OF i] z
      by (auto simp: length_mask_assign_row)
  qed
  with r rows show ?thesis by blast
qed

theorem end_marker_at_valid_count_witness:
  "wf_batch 2 [[5, 6, 7], [5, 6, 0]] [[True, True, True], [True, True, False]]
      [[True, True], [False, False]] [[[1, 2], [3, 4]], [[5, 6], [7, 8]]] \<and>
   (\<exists>r. assemble (- 100) 2 [[5, 6, 7], [5, 6, 0]] [[True, True, True], [True, True, False]]
          [[True, True], [False, False]] [[[1, 2], [3, 4]], [[5, 6], [7, 8]]] = Inr r \<and>
        extended_audio_attention_mask r ! 0 = [True, True, True] \<and>
        extended_audio_input_ids r ! 0 = [[1, 2], [3, 4], [0, 0]] \<and>
        extended_audio_attention_mask r ! 1 = [True, False, False] \<and>
        extended_audio_input_ids r ! 1 = [[0, 0], [0, 0], [0, 0]])"
proof -
  have h: "wf_batch 2 [[5, 6, 7], [5, 6, 0]] [[True, True, True], [True, True, False]]
      [[True, True], [False, False]] [[[1, 2], [3, 4]], [[5, 6], [7, 8]]]"
    by (simp add: wf_batch_def)
  from end_marker_at_valid_count[OF h, of "- 100"] obtain r where
    r: "assemble (- 100) 2 [[5, 6, 7], [5, 6, 0]] [[True, True, True], [True, True, False]]
          [[True, True], [False, False]] [[[1, 2], [3, 4]], [[5, 6], [7, 8]]] = Inr r"
    and rows: "\<forall>i<length [[True, True, True], [True, True, False]].
        extended_audio_attention_mask r ! i =
          ([[True, True], [False, False]] ! i @ [False])
            [row_sum ([[True, True], [False, False]] ! i) := True] \<and>
        extended_audio_input_ids r ! i =
          (mask_assign_row (map Not ([[True, True], [False, False]] ! i)) AUDIO_PAD_TOKEN_ID
              ([[[1, 2], [3, 4]], [[5, 6], [7, 8]]] ! i)
             @ [replicate 2 AUDIO_PAD_TOKEN_ID])
            [row_sum ([[True, True], [False, False]] ! i) := replicate 2 AUDIO_EOS_TOKEN_ID]"
    by blast
  from rows have r0: "extended_audio_attention_mask r ! 0 = [True, True, True] \<and>
        extended_audio_input_ids r ! 0 = [[1, 2], [3, 4], [0, 0]]"
    by (simp add: row_sum_def mask_assign_row_def AUDIO_PAD_TOKEN_ID_def AUDIO_EOS_TOKEN_ID_def
        numeral_2_eq_2)
  from rows have "1 < length [[True, True, True], [True, True, False]] \<longrightarrow>
        extended_audio_attention_mask r ! 1 = [True, False, False] \<and>
        extended_audio_input_ids r ! 1 = [[0, 0], [0, 0], [0, 0]]"
    by (simp add: row_sum_def mask_assign_row_def AUDIO_PAD_TOKEN_ID_def AUDIO_EOS_TOKEN_ID_def
        numeral_2_eq_2)
  then have r1: "extended_audio_attention_mask r ! 1 = [True, False, False] \<and>
        extended_audio_input_ids r ! 1 = [[0, 0], [0, 0], [0, 0]]"
    by simp
  from h r r0 r1 show ?thesis by blast
qed


text \<open>
  Claim C4. When every row of the audio attention mask is a left-aligned prefix of true
  entries, the combined attention mask of each row has as many true entries as the text
  mask and the audio mask of that row together, plus one for the end marker. The text
  rows need no alignment for this.
\<close>

theorem combined_mask_sum:
  assumes wf: "wf_batch num_vq ti tm am x"
    and la: "list_all left_aligned am"
  shows "\<exists>r. assemble ign num_vq ti tm am x = Inr r \<and>
     length (attention_mask r) = length tm \<and>
     (\<forall>i<length tm.
        row_sum (attention_mask r ! i) = row_sum (tm ! i) + row_sum (am ! i) + 1)"
proof -
  from assemble_rows[OF wf, of ign] obtain r where r: "assemble ign num_vq ti tm am x = Inr r"
    and len: "length (extended_audio_attention_mask r) = length tm"
    and rows: "\<forall>i<length tm.
        extended_audio_attention_mask r ! i = (am ! i @ [False])[row_sum (am ! i) := True]"
    and att: "attention_mask r = cat1 tm (extended_audio_attention_mask r)"
    by blast
  from wf have lam: "length am = length tm" by (simp add: wf_batch_def)
  have "row_sum (attention_mask r ! i) = row_sum (tm ! i) + row_sum (am ! i) + 1"
    if i: "i < length tm" for i
  proof -
    from la lam i have "left_aligned (am ! i)" by (simp add: list_all_length)
    then have free: "\<not> (am ! i @ [False]) ! row_sum (am ! i)" by (rule left_aligned_marker_free)
    have "row_sum (am ! i) \<le> length (am ! i)" by (rule row_sum_le)
    then have "row_sum ((am ! i @ [False])[row_sum (am ! i) := True]) = Suc (row_sum (am ! i @ [False]))"
      using free by (intro row_sum_set_True) simp_all
    then have "row_sum (extended_audio_attention_mask r ! i) = Suc (row_sum (am ! i))"
      using rows i by (simp add: row_sum_append row_sum_def)
    moreover have "attention_mask r ! i = tm ! i @ extended_audio_attention_mask r ! i"
      using att len i by (simp add: cat1_def)
    ultimately show ?thesis by (simp add: row_sum_append)
  qed
  moreover have "length (attention_mask r) = length tm" using att len by (simp add: cat1_def)
  ultimately show ?thesis using r by blast
qed

theorem combined_mask_sum_witness:
  "wf_batch 1 [[1, 2, 3, 4, 5], [1, 2, 3, 0, 0]]
      [[True, True, True, True, True], [True, True, True, False, False]]
      [[True, True, True, True], [True, True, False, False]]
      [[[11], [12], [13], [14]], [[21], [22], [23], [24]]] \<and>
   list_all left_aligned [[True, True, True, True], [True, True, False, False]] \<and>
   (\<exists>r. assemble (- 100) 1 [[1, 2, 3, 4, 5], [1, 2, 3, 0, 0]]
          [[True, True, True, True, True], [True, True, True, False, False]]
          [[True, True, True, True], [True, True, False, False]]
          [[[11], [12], [13], [14]], [[21], [22], [23], [24]]] = Inr r \<and>
        row_sum (attention_mask r ! 0) = 10 \<and> row_sum (attention_mask r ! 1) = 6)"
proof -
  have h: "wf_batch 1 [[1, 2, 3, 4, 5], [1, 2, 3, 0, 0]]
      [[True, True, True, True, True], [True, True, True, False, False]]
      [[True, True, True, True], [True, True, False, False]]
      [[[11], [12], [13], [14]], [[21], [22], [23], [24]]]"
    by (simp add: wf_batch_def)
  have la: "list_all left_aligned [[True, True, True, True], [True, True, False, False]]"
    by (simp add: left_aligned_def row_sum_def numeral_eq_Suc)
  from combined_mask_sum[OF h la, of "- 100"] obtain r where
    r: "assemble (- 100) 1 [[1, 2, 3, 4, 5], [1, 2, 3, 0, 0]]
          [[True, True, True, True, True], [True, True, True, False, False]]
          [[True, True, True, True], [True, True, False, False]]
          [[[11], [12], [13], [14]], [[21], [22], [23], [24]]] = Inr r"
    and rows: "\<forall>i<length [[True, True, True, True, True], [True, True, True, False, False]].
        row_sum (attention_mask r ! i) =
          row_sum ([[True, True, True, True, True], [True, True, True, False, False]] ! i) +
          row_sum ([[True, True, True, True], [True, True, False, False]] ! i) + 1"
    by blast
  from rows have r0: "row_sum (attention_mask r ! 0) = 10"
    by (simp add: row_sum_def)
  from rows have "1 < length [[True, True, True, True, True], [True, True, True, False, False]]
      \<longrightarrow> row_sum (attention_mask r ! 1) = 6"
    by (simp add: row_sum_def)
  then have r1: "row_sum (attention_mask r ! 1) = 6" by simp
  from h la r r0 r1 show ?thesis by blast
qed

text \<open>The rows of the grids the assembler returns, in terms of the rows of the batch.\<close>

lemma assemble_label_rows:
  assumes wf: "wf_batch num_vq ti tm am x"
  shows "\<exists>r. assemble ign num_vq ti tm am x = Inr r \<and>
     length (labels r) = length tm \<and> length (input_ids r) = length tm \<and>
     length (attention_mask r) = length tm \<and>
     (\<forall>i<length tm.
        length (labels r ! i) = length (attention_mask r ! i) \<and>
        length (input_ids r ! i) = length (attention_mask r ! i) \<and>
        length (attention_mask r ! i) = length (tm ! i) + length (am ! i) + 1 \<and>
        (\<forall>t<length (attention_mask r ! i).
           length (input_ids r ! i ! t) = num_vq \<and>
           labels r ! i ! t =
             (if attention_mask r ! i ! t then input_ids r ! i ! t else replicate num_vq ign)) \<and>
        (\<forall>t<length (tm ! i).
           attention_mask r ! i ! t = tm ! i ! t \<and>
           input_ids r ! i ! t = replicate num_vq (ti ! i ! t)))"
proof -
  from assemble_rows[OF wf, of ign] obtain r where r: "assemble ign num_vq ti tm am x = Inr r"
    and lm: "length (extended_audio_attention_mask r) = length tm"
    and lx: "length (extended_audio_input_ids r) = length tm"
    and rows: "\<forall>i<length tm.
        extended_audio_attention_mask r ! i = (am ! i @ [False])[row_sum (am ! i) := True] \<and>
        extended_audio_input_ids r ! i =
          (mask_assign_row (map Not (am ! i)) AUDIO_PAD_TOKEN_ID (x ! i)
             @ [replicate num_vq AUDIO_PAD_TOKEN_ID])
            [row_sum (am ! i) := replicate num_vq AUDIO_EOS_TOKEN_ID]"
    and inp: "input_ids r = cat1 (map (map (replicate num_vq)) ti) (extended_audio_input_ids r)"
    and att: "attention_mask r = cat1 tm (extended_audio_attention_mask r)"
    and lab: "labels r = mask_assign (invert_mask (attention_mask r)) ign (input_ids r)"
    by blast
  from wf have len: "length ti = length tm" "length am = length tm" "length x = length tm"
    and trow: "\<And>i. i < length tm \<Longrightarrow> length (ti ! i) = length (tm ! i)"
    and arow: "\<And>i. i < length tm \<Longrightarrow> length (am ! i) = length (x ! i)"
    and slots: "\<And>i. i < length tm \<Longrightarrow> list_all (\<lambda>s. length s = num_vq) (x ! i)"
    by (auto simp: wf_batch_def list_all2_conv_all_nth)
  have linp: "length (input_ids r) = length tm" using inp lx len by (simp add: cat1_def)
  have latt: "length (attention_mask r) = length tm" using att lm by (simp add: cat1_def)
  have llab: "length (labels r) = length tm"
    using lab linp latt by (simp add: length_mask_assign invert_mask_def)
  have row: "length (labels r ! i) = length (attention_mask r ! i) \<and>
        length (input_ids r ! i) = length (attention_mask r ! i) \<and>
        length (attention_mask r ! i) = length (tm ! i) + length (am ! i) + 1 \<and>
        (\<forall>t<length (attention_mask r ! i).
           length (input_ids r ! i ! t) = num_vq \<and>
           labels r ! i ! t =
             (if attention_mask r ! i ! t then input_ids r ! i ! t else replicate num_vq ign)) \<and>
        (\<forall>t<length (tm ! i).
           attention_mask r ! i ! t = tm ! i ! t \<and>
           input_ids r ! i ! t = replicate num_vq (ti ! i ! t))"
    if i: "i < length tm" for i
  proof -
    let ?e = "extended_audio_input_ids r ! i"
    let ?p = "mask_assign_row (map Not (am ! i)) AUDIO_PAD_TOKEN_ID (x ! i)"
    have ai: "attention_mask r ! i = tm ! i @ extended_audio_attention_mask r ! i"
      using att lm i by (simp add: cat1_def)
    have ii: "input_ids r ! i = map (replicate num_vq) (ti ! i) @ ?e"
      using inp lx len i by (simp add: cat1_def)
    have lp: "length ?p = length (am ! i)" using arow[OF i] by (simp add: length_mask_assign_row)
    have le: "length ?e = Suc (length (am ! i))" using rows i lp by simp
    have lme: "length (extended_audio_attention_mask r ! i) = Suc (length (am ! i))"
      using rows i by simp
    have eslots: "length (?e ! t) = num_vq" if t: "t < Suc (length (am ! i))" for t
    proof (cases "t = row_sum (am ! i)")
      case True
      then show ?thesis using rows i t lp by simp
    next
      case False
      show ?thesis
      proof (cases "t < length (am ! i)")
        case True
        then show ?thesis
          using rows i False lp mask_assign_row_slots[OF slots[OF i], of t "map Not (am ! i)" AUDIO_PAD_TOKEN_ID]
          by (simp add: nth_append)
      next
        case F: False
        with t have "t = length (am ! i)" by simp
        then show ?thesis using rows i False lp by (simp add: nth_append)
      qed
    qed
    have islots: "length (input_ids r ! i ! t) = num_vq" if t: "t < length (input_ids r ! i)" for t
    proof (cases "t < length (ti ! i)")
      case True
      then show ?thesis using ii by (simp add: nth_append)
    next
      case False
      then show ?thesis using ii t le eslots[of "t - length (ti ! i)"] by (simp add: nth_append)
    qed
    have l1: "length (input_ids r ! i) = length (attention_mask r ! i)"
      using ai ii le lme trow[OF i] by simp
    have li: "labels r ! i = mask_assign_row (map Not (attention_mask r ! i)) ign (input_ids r ! i)"
      using lab linp latt i by (simp add: mask_assign_nth invert_mask_def)
    have l2: "length (labels r ! i) = length (attention_mask r ! i)"
      using li l1 by (simp add: length_mask_assign_row)
    have l3: "length (attention_mask r ! i) = length (tm ! i) + length (am ! i) + 1"
      using ai lme by simp
    have labt: "length (input_ids r ! i ! t) = num_vq \<and>
           labels r ! i ! t =
             (if attention_mask r ! i ! t then input_ids r ! i ! t else replicate num_vq ign)"
      if t: "t < length (attention_mask r ! i)" for t
      using li l1 t islots[of t] by (simp add: mask_assign_row_nth)
    have textt: "attention_mask r ! i ! t = tm ! i ! t \<and>
           input_ids r ! i ! t = replicate num_vq (ti ! i ! t)"
      if t: "t < length (tm ! i)" for t
      using ai ii t trow[OF i] by (simp add: nth_append)
    from l1 l2 l3 labt textt show ?thesis by blast
  qed
  show ?thesis using r llab linp latt row by blast
qed

text \<open>
  Claim C5. On every batch of the shapes the collator delivers, the label grid has the
  shape of the combined id grid, equals it at every position where the combined attention
  mask is true, and holds the ignore sentinel in every codebook slot of every position
  where the mask is false.
\<close>

theorem labels_follow_mask:
  assumes wf: "wf_batch num_vq ti tm am x"
  shows "\<exists>r. assemble ign num_vq ti tm am x = Inr r \<and>
     length (labels r) = length tm \<and> length (input_ids r) = length tm \<and>
     length (attention_mask r) = length tm \<and>
     (\<forall>i<length tm.
        length (labels r ! i) = length (attention_mask r ! i) \<and>
        length (input_ids r ! i) = length (attention_mask r ! i) \<and>
        (\<forall>t<length (attention_mask r ! i).
           labels r ! i ! t =
             (if attention_mask r ! i ! t then input_ids r ! i ! t else replicate num_vq ign)))"
proof -
  from assemble_label_rows[OF wf, of ign] obtain r where
    r: "assemble ign num_vq ti tm am x = Inr r"
    and lens: "length (labels r) = length tm" "length (input_ids r) = length tm"
      "length (attention_mask r) = length tm"
    and rows: "\<forall>i<length tm.
        length (labels r ! i) = length (attention_mask r ! i) \<and>
        length (input_ids r ! i) = length (attention_mask r ! i) \<and>
        length (attention_mask r ! i) = length (tm ! i) + length (am ! i) + 1 \<and>
        (\<forall>t<length (attention_mask r ! i).
           length (input_ids r ! i ! t) = num_vq \<and>
           labels r ! i ! t =
             (if attention_mask r ! i ! t then input_ids r ! i ! t else replicate num_vq ign)) \<and>
        (\<forall>t<length (tm ! i).
           attention_mask r ! i ! t = tm ! i ! t \<and>
           input_ids r ! i ! t = replicate num_vq (ti ! i ! t))"
    by blast
  from rows have "\<forall>i<length tm.
        length (labels r ! i) = length (attention_mask r ! i) \<and>
        length (input_ids r ! i) = length (attention_mask r ! i) \<and>
        (\<forall>t<length (attention_mask r ! i).
           labels r ! i ! t =
             (if attention_mask r ! i ! t then input_ids r ! i ! t else replicate num_vq ign))"
    by simp
  with r lens show ?thesis by blast
qed

theorem labels_follow_mask_witness:
  "wf_batch 2 [[5, 6, 7], [5, 6, 0]] [[True, True, True], [True, True, False]]
      [[True, True], [True, False]] [[[1, 2], [3, 4]], [[5, 6], [7, 8]]] \<and>
   (\<exists>r. assemble (- 100) 2 [[5, 6, 7], [5, 6, 0]] [[True, True, True], [True, True, False]]
          [[True, True], [True, False]] [[[1, 2], [3, 4]], [[5, 6], [7, 8]]] = Inr r \<and>
        attention_mask r = [[True, True, True, True, True, True],
                            [True, True, False, True, True, False]] \<and>
        input_ids r = [[[5, 5], [6, 6], [7, 7], [1, 2], [3, 4], [0, 0]],
                       [[5, 5], [6, 6], [0, 0], [5, 6], [0, 0], [0, 0]]] \<and>
        labels r ! 1 ! 2 = [- 100, - 100] \<and> labels r ! 1 ! 3 = [5, 6] \<and>
        labels r ! 1 ! 5 = [- 100, - 100])"
proof -
  let ?ti = "[[5, 6, 7], [5, 6, 0 :: int]]"
  let ?tm = "[[True, True, True], [True, True, False]]"
  let ?am = "[[True, True], [True, False]]"
  let ?x = "[[[1, 2], [3, 4]], [[5, 6], [7, 8 :: int]]]"
  have h: "wf_batch 2 ?ti ?tm ?am ?x"
    by (simp add: wf_batch_def)
  from labels_follow_mask[OF h, of "- 100"] obtain r where
    r: "assemble (- 100) 2 ?ti ?tm ?am ?x = Inr r"
    and rows: "\<forall>i<length ?tm.
        length (labels r ! i) = length (attention_mask r ! i) \<and>
        length (input_ids r ! i) = length (attention_mask r ! i) \<and>
        (\<forall>t<length (attention_mask r ! i).
           labels r ! i ! t =
             (if attention_mask r ! i ! t then input_ids r ! i ! t else replicate 2 (- 100)))"
    by blast
  have e: "assemble (- 100) 2 ?ti ?tm ?am ?x =
      Inr \<lparr>extended_audio_attention_mask = [[True, True, True], [True, True, False]],
           extended_audio_input_ids = [[[1, 2], [3, 4], [0, 0]], [[5, 6], [0, 0], [0, 0]]],
           input_ids = [[[5, 5], [6, 6], [7, 7], [1, 2], [3, 4], [0, 0]],
                        [[5, 5], [6, 6], [0, 0], [5, 6], [0, 0], [0, 0]]],
           attention_mask = [[True, True, True, True, True, True],
                             [True, True, False, True, True, False]],
           text_mask = [[True, True, True, False, False, False],
                        [True, True, True, False, False, False]],
           labels = [[[5, 5], [6, 6], [7, 7], [1, 2], [3, 4], [0, 0]],
                     [[5, 5], [6, 6], [- 100, - 100], [5, 6], [0, 0], [- 100, - 100]]]\<rparr>"
    by (simp add: assemble_def pad_audio_ids_def mask_assign_def mask_assign_row_def
        invert_mask_def cat1_def row_sums_def row_sum_def set_item_def fill_item_def
        AUDIO_PAD_TOKEN_ID_def AUDIO_EOS_TOKEN_ID_def upt_rec numeral_2_eq_2)
  from r e have att: "attention_mask r = [[True, True, True, True, True, True],
                            [True, True, False, True, True, False]]"
    and inp: "input_ids r = [[[5, 5], [6, 6], [7, 7], [1, 2], [3, 4], [0, 0]],
                       [[5, 5], [6, 6], [0, 0], [5, 6], [0, 0], [0, 0]]]"
    by auto
  from rows have row1: "\<forall>t<length (attention_mask r ! 1).
           labels r ! 1 ! t =
             (if attention_mask r ! 1 ! t then input_ids r ! 1 ! t else replicate 2 (- 100))"
    by simp
  have l2: "labels r ! 1 ! 2 = [- 100, - 100]"
    using row1[rule_format, of 2] att inp by (simp add: numeral_2_eq_2)
  have l3: "labels r ! 1 ! 3 = [5, 6]"
    using row1[rule_format, of 3] att inp by (simp add: numeral_3_eq_3)
  have l5: "labels r ! 1 ! 5 = [- 100, - 100]"
    using row1[rule_format, of 5] att inp by (simp add: numeral_eq_Suc)
  from h r att inp l2 l3 l5 show ?thesis by blast
qed

section \<open>Properties of the loss router\<close>

text \<open>The slices of the router as lists of positions, for a row that covers the text
  positions.\<close>

lemma take_drop_positions:
  "k + n \<le> length xs \<Longrightarrow> take n (drop k xs) = map (nth xs) [k..<k + n]"
  by (intro nth_equalityI) simp_all

lemma py_bound_nonneg: "py_bound n (int k) = min n k"
  by (simp add: py_bound_def)

lemma py_bound_pred: "0 < T \<Longrightarrow> py_bound n (int T - 1) = min n (T - 1)"
  by (simp add: py_bound_def nat_diff_distrib')

lemma py_bound_last: "py_bound n (- 1) = n - 1"
  by (simp add: py_bound_def)

lemma py_slice_to_positions:
  assumes "0 < T" "T \<le> length xs"
  shows "py_slice_to (int T - 1) xs = map (nth xs) [0..<T - 1]"
proof -
  have "py_slice_to (int T - 1) xs = take (T - 1) (drop 0 xs)"
    using assms by (simp add: py_slice_to_def py_bound_pred)
  also have "\<dots> = map (nth xs) [0..<0 + (T - 1)]"
    using assms by (intro take_drop_positions) simp
  finally show ?thesis by simp
qed

lemma py_slice_audio_positions:
  assumes "0 < T" "T \<le> length xs"
  shows "py_slice (int T - 1) (- 1) xs = map (nth xs) [T - 1..<length xs - 1]"
proof -
  have "py_slice (int T - 1) (- 1) xs = take (length xs - T) (drop (T - 1) xs)"
    using assms by (simp add: py_slice_def Let_def py_bound_pred py_bound_last)
  also have "\<dots> = map (nth xs) [T - 1..<(T - 1) + (length xs - T)]"
    using assms by (intro take_drop_positions) simp
  also have "(T - 1) + (length xs - T) = length xs - 1" using assms by simp
  finally show ?thesis .
qed

lemma py_slice_from_positions:
  assumes "T \<le> length xs"
  shows "py_slice_from (int T) xs = map (nth xs) [T..<length xs]"
proof -
  have "py_slice_from (int T) xs = take (length xs - T) (drop T xs)"
    using assms by (simp add: py_slice_from_def py_bound_nonneg)
  also have "\<dots> = map (nth xs) [T..<T + (length xs - T)]"
    using assms by (intro take_drop_positions) simp
  finally show ?thesis using assms by simp
qed

lemma py_slice_text_positions:
  assumes "0 < T" "T \<le> length xs"
  shows "py_slice 1 (int T) xs = map (nth xs) [1..<T]"
proof -
  have "py_bound (length xs) 1 = 1" using assms by (simp add: py_bound_def)
  then have "py_slice 1 (int T) xs = take (T - 1) (drop 1 xs)"
    using assms by (simp add: py_slice_def Let_def py_bound_nonneg)
  also have "\<dots> = map (nth xs) [1..<1 + (T - 1)]"
    using assms by (intro take_drop_positions) simp
  finally show ?thesis using assms by simp
qed

lemma length_concat_const:
  "(\<And>x. x \<in> set xs \<Longrightarrow> length (f x) = n) \<Longrightarrow> length (concat (map f xs)) = length xs * n"
  by (induction xs) simp_all

lemma length_concat_rows:
  "list_all2 (\<lambda>a b. length (F a) = length (G b)) xs ys \<Longrightarrow>
   length (concat (map F xs)) = length (concat (map G ys))"
  by (induction xs ys rule: list_all2_induct) simp_all


lemma loss_router_ok:
  assumes wf: "wf_router num_vq T hs lbls"
  shows "\<exists>r. loss_router num_vq head_code head_text loss_fn decoder_fwd mse_fn train_text T hs lbls mel
           = Inr r \<and>
     loss r =
       loss_fn
         (concat (map (\<lambda>row. concat (map (\<lambda>t. map (\<lambda>i. head_code i (row ! t)) [0..<num_vq])
                                         [T - 1..<length row - 1])) hs))
         (concat (map (\<lambda>row. concat (map (\<lambda>t. row ! t) [T..<length row])) lbls))
       + (if train_text
          then loss_fn (concat (map (\<lambda>row. map (\<lambda>t. head_text (row ! t)) [0..<T - 1]) hs))
                       (concat (map (\<lambda>row. map (\<lambda>t. row ! t ! 0) [1..<T]) lbls))
          else 0)
       + 0.01 * mse_fn (decoder_fwd (map (py_slice_to (- 1)) (audio_hidden_states T hs))) mel \<and>
     text_loss r =
       (if train_text
        then Some (loss_fn (concat (map (\<lambda>row. map (\<lambda>t. head_text (row ! t)) [0..<T - 1]) hs))
                           (concat (map (\<lambda>row. map (\<lambda>t. row ! t ! 0) [1..<T]) lbls)))
        else None) \<and>
     mse_loss r = mse_fn (decoder_fwd (map (py_slice_to (- 1)) (audio_hidden_states T hs))) mel \<and>
     audio_loss r = loss r"
proof -
  let ?AL = "concat (map (\<lambda>row. concat (map (\<lambda>t. map (\<lambda>i. head_code i (row ! t)) [0..<num_vq])
                                         [T - 1..<length row - 1])) hs)"
  let ?AT = "concat (map (\<lambda>row. concat (map (\<lambda>t. row ! t) [T..<length row])) lbls)"
  let ?TL = "concat (map (\<lambda>row. map (\<lambda>t. head_text (row ! t)) [0..<T - 1]) hs)"
  let ?TT = "concat (map (\<lambda>row. map (\<lambda>t. row ! t ! 0) [1..<T]) lbls)"
  from wf have nv: "0 < num_vq" and T: "0 < T"
    and rel: "list_all2 (\<lambda>h l. length h = length l \<and> T \<le> length l \<and>
                        list_all (\<lambda>s. length s = num_vq) l) hs lbls"
    by (simp_all add: wf_router_def)
  have hrow: "T \<le> length h" if "h \<in> set hs" for h
    using rel that by (auto simp: list_all2_conv_all_nth in_set_conv_nth)
  have lrow: "T \<le> length l \<and> list_all (\<lambda>s. length s = num_vq) l" if "l \<in> set lbls" for l
    using rel that by (auto simp: list_all2_conv_all_nth in_set_conv_nth)
  have ah: "audio_hidden_states T hs = map (\<lambda>row. map (nth row) [T - 1..<length row - 1]) hs"
    unfolding audio_hidden_states_def
    by (rule map_cong[OF refl]) (simp add: py_slice_audio_positions T hrow)
  have th: "text_hidden_states T hs = map (\<lambda>row. map (nth row) [0..<T - 1]) hs"
    unfolding text_hidden_states_def
    by (rule map_cong[OF refl]) (simp add: py_slice_to_positions T hrow)
  have al: "map (py_slice_from (int T)) lbls = map (\<lambda>row. map (nth row) [T..<length row]) lbls"
    by (rule map_cong[OF refl]) (simp add: py_slice_from_positions lrow)
  have tl: "map (py_slice 1 (int T)) lbls = map (\<lambda>row. map (nth row) [1..<T]) lbls"
    by (rule map_cong[OF refl]) (simp add: py_slice_text_positions T lrow)
  have AL: "flatten02 (stack_heads num_vq head_code (audio_hidden_states T hs)) = ?AL"
    by (simp add: flatten02_def stack_heads_def ah o_def)
  have AT: "flatten02 (map (py_slice_from (int T)) lbls) = ?AT"
    by (simp add: flatten02_def al o_def)
  have TL: "flatten01 (map (map head_text) (text_hidden_states T hs)) = ?TL"
    by (simp add: flatten01_def th o_def)
  have slot: "l ! t \<noteq> [] \<and> length (l ! t) = num_vq" if "l \<in> set lbls" "t < length l" for l t
    using lrow[OF that(1)] that(2) nv by (auto simp: list_all_length)
  have fs: "first_slot (map (py_slice 1 (int T)) lbls) =
      Inr (map (\<lambda>row. map (\<lambda>t. row ! t ! 0) [1..<T]) lbls)"
  proof -
    have "row ! t \<noteq> []" if "row \<in> set lbls" "t \<in> set [1..<T]" for row t
    proof -
      from that lrow[OF that(1)] have "t < length row" by simp
      with slot[OF that(1)] show ?thesis by simp
    qed
    then have ne: "list_all (list_all (\<lambda>slots. slots \<noteq> [])) (map (\<lambda>row. map (nth row) [1..<T]) lbls)"
      unfolding list_all_iff by auto
    have "map (map hd) (map (\<lambda>row. map (nth row) [1..<T]) lbls) =
        map (\<lambda>row. map (\<lambda>t. row ! t ! 0) [1..<T]) lbls"
    proof -
      have "map hd (map (nth row) [1..<T]) = map (\<lambda>t. row ! t ! 0) [1..<T]"
        if "row \<in> set lbls" for row
      proof -
        have "hd (row ! t) = row ! t ! 0" if "t \<in> set [1..<T]" for t
        proof -
          from that lrow[OF \<open>row \<in> set lbls\<close>] have "t < length row" by simp
          with slot[OF \<open>row \<in> set lbls\<close>] show ?thesis by (simp add: hd_conv_nth)
        qed
        then show ?thesis by simp
      qed
      then show ?thesis by simp
    qed
    with ne show ?thesis by (simp add: first_slot_def tl)
  qed
  have lenA: "length ?AL = length ?AT"
  proof (rule length_concat_rows)
    show "list_all2 (\<lambda>a b.
        length (concat (map (\<lambda>t. map (\<lambda>i. head_code i (a ! t)) [0..<num_vq]) [T - 1..<length a - 1])) =
        length (concat (map (\<lambda>t. b ! t) [T..<length b]))) hs lbls"
    proof (rule list_all2_mono[OF rel])
      fix h :: "'a list" and l :: "int list list"
      assume r: "length h = length l \<and> T \<le> length l \<and> list_all (\<lambda>s. length s = num_vq) l"
      have "length (concat (map (\<lambda>t. map (\<lambda>i. head_code i (h ! t)) [0..<num_vq]) [T - 1..<length h - 1]))
          = length [T - 1..<length h - 1] * num_vq"
        by (rule length_concat_const) simp
      moreover have "length (concat (map (\<lambda>t. l ! t) [T..<length l])) = length [T..<length l] * num_vq"
        by (rule length_concat_const) (use r in \<open>auto simp: list_all_length\<close>)
      ultimately show "length (concat (map (\<lambda>t. map (\<lambda>i. head_code i (h ! t)) [0..<num_vq])
            [T - 1..<length h - 1])) = length (concat (map (\<lambda>t. l ! t) [T..<length l]))"
        using r T by simp
    qed
  qed
  have lenT: "length ?TL = length ?TT"
    by (rule length_concat_rows) (use rel in \<open>simp add: list_all2_conv_all_nth\<close>)
  have a: "ce_call loss_fn (flatten02 (stack_heads num_vq head_code (audio_hidden_states T hs)))
      (flatten02 (map (py_slice_from (int T)) lbls)) = Inr (loss_fn ?AL ?AT)"
    using lenA by (simp add: ce_call_def AL AT)
  have t: "text_branch head_text loss_fn train_text T hs lbls =
      Inr (if train_text then Some (loss_fn ?TL ?TT) else None)"
  proof -
    have TL': "concat (map (map head_text) (text_hidden_states T hs)) = ?TL"
      using TL by (simp add: flatten01_def)
    show ?thesis using lenT by (simp add: text_branch_def fs flatten01_def TL' ce_call_def)
  qed
  show ?thesis
    unfolding loss_router_def Let_def a t using nv by simp
qed

text \<open>
  Claim C6. On hidden states and labels of matching shapes the router returns, and the
  total loss is the value of one cross-entropy call on the audio logits of all rows, all
  audio positions and all codebook heads, flattened into one list, against the labels of
  the same positions and slots flattened likewise; plus the value of the text
  cross-entropy call when the text flag is set, and nothing otherwise; plus 0.01 times
  the reconstruction loss. Scalar losses are read as reals.
\<close>

theorem total_loss_composition:
  assumes wf: "wf_router num_vq T hs lbls"
  shows "\<exists>r. loss_router num_vq head_code head_text loss_fn decoder_fwd mse_fn train_text T hs lbls mel
           = Inr r \<and>
     loss r =
       loss_fn
         (concat (map (\<lambda>row. concat (map (\<lambda>t. map (\<lambda>i. head_code i (row ! t)) [0..<num_vq])
                                         [T - 1..<length row - 1])) hs))
         (concat (map (\<lambda>row. concat (map (\<lambda>t. row ! t) [T..<length row])) lbls))
       + (if train_text
          then loss_fn (concat (map (\<lambda>row. map (\<lambda>t. head_text (row ! t)) [0..<T - 1]) hs))
                       (concat (map (\<lambda>row. map (\<lambda>t. row ! t ! 0) [1..<T]) lbls))
          else 0)
       + 0.01 * mse_fn (decoder_fwd (map (py_slice_to (- 1)) (audio_hidden_states T hs))) mel"
  using loss_router_ok[OF wf, of head_code head_text loss_fn decoder_fwd mse_fn train_text mel]
  by blast

theorem total_loss_composition_witness:
  "wf_router 2 2 [[1, 2, 3, 4 :: real]] [[[0, 0], [5, 5], [6, 7], [0, 0]]] \<and>
   (\<exists>r. loss_router 2 (\<lambda>i h. h * 10 + real i) (\<lambda>h. h) (\<lambda>lg tg. sum_list lg)
          (\<lambda>x. sum_list (concat x)) (\<lambda>a b. a - b) True 2
          [[1, 2, 3, 4 :: real]] [[[0, 0], [5, 5], [6, 7], [0, 0]]] (0 :: real) = Inr r \<and>
        loss r = 102 + 1 + 0.01 * 2)"
proof -
  have wf: "wf_router 2 2 [[1, 2, 3, 4 :: real]] [[[0, 0], [5, 5], [6, 7], [0, 0]]]"
    by (simp add: wf_router_def)
  from total_loss_composition[OF wf, of "\<lambda>i h. h * 10 + real i" "\<lambda>h. h" "\<lambda>lg tg. sum_list lg"
      "\<lambda>x. sum_list (concat x)" "\<lambda>a b. a - b" True 0]
  obtain r where r: "loss_router 2 (\<lambda>i h. h * 10 + real i) (\<lambda>h. h) (\<lambda>lg tg. sum_list lg)
          (\<lambda>x. sum_list (concat x)) (\<lambda>a b. a - b) True 2
          [[1, 2, 3, 4 :: real]] [[[0, 0], [5, 5], [6, 7], [0, 0]]] (0 :: real) = Inr r"
    and l: "loss r =
       sum_list (concat (map (\<lambda>row. concat (map (\<lambda>t. map (\<lambda>i. row ! t * 10 + real i) [0..<2])
                                         [2 - 1..<length row - 1])) [[1, 2, 3, 4 :: real]]))
       + (if True
          then sum_list (concat (map (\<lambda>row. map (\<lambda>t. row ! t) [0..<2 - 1]) [[1, 2, 3, 4 :: real]]))
          else 0)
       + 0.01 * (sum_list (concat (map (py_slice_to (- 1))
                   (audio_hidden_states 2 [[1, 2, 3, 4 :: real]]))) - 0)"
    by blast
  have "loss r = 102 + 1 + 0.01 * 2"
    unfolding l
    by (simp add: audio_hidden_states_def py_slice_def py_slice_to_def py_bound_def Let_def
        upt_rec)
  with wf r show ?thesis by blast
qed

text \<open>
  Claim C7, as the code has it. On a training step of the shapes above, with the label
  grid the assembler builds and the text flag set, the router returns and the text loss
  is the cross-entropy of the projections of the hidden states at the positions 0 to
  \<open>text_len - 2\<close> against the first codebook slot of the label grid at the positions 1 to
  \<open>text_len - 1\<close>. Those targets are the text ids where the text attention mask is true
  and the ignore sentinel where it is false, and the loss is the mean over the targets
  that are not the sentinel, so a target that is the sentinel contributes nothing. The
  total loss is that of the step without the flag plus 1.0 times the text loss.
\<close>

theorem text_loss_shifted_positions:
  assumes wf: "wf_step num_vq T ti tm am x hs"
  shows "\<exists>a r r0.
     assemble LabelSmoother_ignore_index num_vq ti tm am x = Inr a \<and>
     loss_router num_vq head_code head_text (CrossEntropyLoss nll nan) decoder_fwd mse_fn True T hs
       (labels a) mel = Inr r \<and>
     loss_router num_vq head_code head_text (CrossEntropyLoss nll nan) decoder_fwd mse_fn False T hs
       (labels a) mel = Inr r0 \<and>
     text_loss r0 = None \<and>
     text_loss r =
       Some (CrossEntropyLoss nll nan
               (concat (map (\<lambda>row. map (\<lambda>t. head_text (row ! t)) [0..<T - 1]) hs))
               (concat (map (\<lambda>row. map (\<lambda>t. row ! t ! 0) [1..<T]) (labels a)))) \<and>
     concat (map (\<lambda>row. map (\<lambda>t. row ! t ! 0) [1..<T]) (labels a)) =
       concat (map (\<lambda>(m, i). map (\<lambda>t. if m ! t then i ! t else LabelSmoother_ignore_index) [1..<T])
                 (zip tm ti)) \<and>
     CrossEntropyLoss nll nan
         (concat (map (\<lambda>row. map (\<lambda>t. head_text (row ! t)) [0..<T - 1]) hs))
         (concat (map (\<lambda>row. map (\<lambda>t. row ! t ! 0) [1..<T]) (labels a))) =
       (let kept = filter (\<lambda>(lg, t). t \<noteq> LabelSmoother_ignore_index)
              (zip (concat (map (\<lambda>row. map (\<lambda>t. head_text (row ! t)) [0..<T - 1]) hs))
                 (concat (map (\<lambda>(m, i). map (\<lambda>t. if m ! t then i ! t
                                                    else LabelSmoother_ignore_index) [1..<T])
                            (zip tm ti))))
        in if kept = [] then nan
           else sum_list (map (\<lambda>(lg, t). nll lg t) kept) / real (length kept)) \<and>
     loss r = loss r0 +
       1.0 * CrossEntropyLoss nll nan
               (concat (map (\<lambda>row. map (\<lambda>t. head_text (row ! t)) [0..<T - 1]) hs))
               (concat (map (\<lambda>row. map (\<lambda>t. row ! t ! 0) [1..<T]) (labels a)))"
proof -
  let ?ign = LabelSmoother_ignore_index
  let ?ce = "CrossEntropyLoss nll nan"
  let ?TL = "concat (map (\<lambda>row. map (\<lambda>t. head_text (row ! t)) [0..<T - 1]) hs)"
  from wf have wb: "wf_batch num_vq ti tm am x" and nv: "0 < num_vq" and T: "0 < T"
    and trows: "\<And>i. i < length tm \<Longrightarrow> length (tm ! i) = T"
    and hrows: "list_all2 (\<lambda>h a. length h = T + length a + 1) hs am"
    by (simp_all add: wf_step_def list_all_length)
  from wb have lens: "length ti = length tm" "length am = length tm"
    by (simp_all add: wf_batch_def)
  from assemble_label_rows[OF wb, of ?ign] obtain a where
    a: "assemble ?ign num_vq ti tm am x = Inr a"
    and la: "length (labels a) = length tm"
    and rows: "\<forall>i<length tm.
        length (labels a ! i) = length (attention_mask a ! i) \<and>
        length (input_ids a ! i) = length (attention_mask a ! i) \<and>
        length (attention_mask a ! i) = length (tm ! i) + length (am ! i) + 1 \<and>
        (\<forall>t<length (attention_mask a ! i).
           length (input_ids a ! i ! t) = num_vq \<and>
           labels a ! i ! t =
             (if attention_mask a ! i ! t then input_ids a ! i ! t else replicate num_vq ?ign)) \<and>
        (\<forall>t<length (tm ! i).
           attention_mask a ! i ! t = tm ! i ! t \<and>
           input_ids a ! i ! t = replicate num_vq (ti ! i ! t))"
    by blast
  let ?TT = "concat (map (\<lambda>row. map (\<lambda>t. row ! t ! 0) [1..<T]) (labels a))"
  let ?TM = "concat (map (\<lambda>(m, i). map (\<lambda>t. if m ! t then i ! t else ?ign) [1..<T]) (zip tm ti))"
  have len_row: "length (labels a ! i) = T + length (am ! i) + 1" if i: "i < length tm" for i
    using rows i trows[OF i] by simp
  have slot_row: "length (labels a ! i ! t) = num_vq"
    if i: "i < length tm" and t: "t < length (labels a ! i)" for i t
    using rows i t by simp
  have text_label: "labels a ! i ! t ! 0 = (if tm ! i ! t then ti ! i ! t else ?ign)"
    if i: "i < length tm" and t: "t < T" for i t
  proof -
    from rows i t trows[OF i]
    have "t < length (attention_mask a ! i)" and "attention_mask a ! i ! t = tm ! i ! t"
      and "input_ids a ! i ! t = replicate num_vq (ti ! i ! t)"
      by simp_all
    with rows i nv show ?thesis by simp
  qed
  have wr: "wf_router num_vq T hs (labels a)"
    unfolding wf_router_def list_all2_conv_all_nth
  proof (intro conjI allI impI)
    show "0 < num_vq" by (rule nv)
    show "0 < T" by (rule T)
    show "length hs = length (labels a)"
      using hrows la lens by (simp add: list_all2_lengthD)
    fix i assume "i < length hs"
    then have i: "i < length tm" using hrows lens by (simp add: list_all2_lengthD)
    then have "length (hs ! i) = T + length (am ! i) + 1"
      using hrows lens by (simp add: list_all2_conv_all_nth)
    then show "length (hs ! i) = length (labels a ! i)" using len_row[OF i] by simp
    show "T \<le> length (labels a ! i)" using len_row[OF i] by simp
    show "list_all (\<lambda>s. length s = num_vq) (labels a ! i)"
      using slot_row[OF i] by (simp add: list_all_length)
  qed
  from loss_router_ok[OF wr, of head_code head_text ?ce decoder_fwd mse_fn True mel]
  obtain r where r:
    "loss_router num_vq head_code head_text ?ce decoder_fwd mse_fn True T hs (labels a) mel = Inr r"
    "loss r =
       ?ce (concat (map (\<lambda>row. concat (map (\<lambda>t. map (\<lambda>i. head_code i (row ! t)) [0..<num_vq])
                                         [T - 1..<length row - 1])) hs))
           (concat (map (\<lambda>row. concat (map (\<lambda>t. row ! t) [T..<length row])) (labels a)))
       + ?ce ?TL ?TT
       + 0.01 * mse_fn (decoder_fwd (map (py_slice_to (- 1)) (audio_hidden_states T hs))) mel"
    "text_loss r = Some (?ce ?TL ?TT)"
    by auto
  from loss_router_ok[OF wr, of head_code head_text ?ce decoder_fwd mse_fn False mel]
  obtain r0 where r0:
    "loss_router num_vq head_code head_text ?ce decoder_fwd mse_fn False T hs (labels a) mel = Inr r0"
    "loss r0 =
       ?ce (concat (map (\<lambda>row. concat (map (\<lambda>t. map (\<lambda>i. head_code i (row ! t)) [0..<num_vq])
                                         [T - 1..<length row - 1])) hs))
           (concat (map (\<lambda>row. concat (map (\<lambda>t. row ! t) [T..<length row])) (labels a)))
       + 0.01 * mse_fn (decoder_fwd (map (py_slice_to (- 1)) (audio_hidden_states T hs))) mel"
    "text_loss r0 = None"
    by auto
  have tt: "?TT = ?TM"
  proof -
    have "map (\<lambda>row. map (\<lambda>t. row ! t ! 0) [1..<T]) (labels a) =
        map (\<lambda>(m, i). map (\<lambda>t. if m ! t then i ! t else ?ign) [1..<T]) (zip tm ti)"
    proof (rule nth_equalityI)
      show "length (map (\<lambda>row. map (\<lambda>t. row ! t ! 0) [1..<T]) (labels a)) =
          length (map (\<lambda>(m, i). map (\<lambda>t. if m ! t then i ! t else ?ign) [1..<T]) (zip tm ti))"
        using la lens by simp
    next
      fix i assume "i < length (map (\<lambda>row. map (\<lambda>t. row ! t ! 0) [1..<T]) (labels a))"
      then have i: "i < length tm" using la by simp
      have "map (\<lambda>t. labels a ! i ! t ! 0) [1..<T] =
          map (\<lambda>t. if tm ! i ! t then ti ! i ! t else ?ign) [1..<T]"
        by (rule map_cong[OF refl]) (simp add: text_label[OF i])
      then show "map (\<lambda>row. map (\<lambda>t. row ! t ! 0) [1..<T]) (labels a) ! i =
          map (\<lambda>(m, i). map (\<lambda>t. if m ! t then i ! t else ?ign) [1..<T]) (zip tm ti) ! i"
        using i la lens by simp
    qed
    then show ?thesis by simp
  qed
  have ce: "?ce ?TL ?TT =
       (let kept = filter (\<lambda>(lg, t). t \<noteq> ?ign) (zip ?TL ?TM)
        in if kept = [] then nan
           else sum_list (map (\<lambda>(lg, t). nll lg t) kept) / real (length kept))"
    unfolding tt
    by (simp add: CrossEntropyLoss_def CrossEntropyLoss_ignore_index_def
        LabelSmoother_ignore_index_def)
  have total: "loss r = loss r0 + 1.0 * ?ce ?TL ?TT"
    unfolding r(2) r0(2) by simp
  from a r(1) r0(1) r0(3) r(3) tt ce total show ?thesis by blast
qed

theorem text_loss_shifted_positions_witness:
  "wf_step 1 3 [[1, 2, 3]] [[True, True, False]] [[True]] [[[7]]] [[10, 11, 12, 13, 14 :: real]] \<and>
   (\<exists>a r. assemble LabelSmoother_ignore_index 1 [[1, 2, 3]] [[True, True, False]] [[True]] [[[7]]]
            = Inr a \<and>
      loss_router 1 (\<lambda>i h. h) (\<lambda>h. h) (CrossEntropyLoss (\<lambda>lg t. lg + real_of_int t) (- 1))
          (\<lambda>x. ()) (\<lambda>a b. 0) True 3 [[10, 11, 12, 13, 14 :: real]] (labels a) () = Inr r \<and>
      text_loss r = Some 12)"
proof -
  have wf: "wf_step 1 3 [[1, 2, 3]] [[True, True, False]] [[True]] [[[7]]]
      [[10, 11, 12, 13, 14 :: real]]"
    by (simp add: wf_step_def wf_batch_def)
  from text_loss_shifted_positions[OF wf, of "\<lambda>i h. h" "\<lambda>h. h" "\<lambda>lg t. lg + real_of_int t" "- 1"
      "\<lambda>x. ()" "\<lambda>a b. 0" "()"]
  obtain a r where a: "assemble LabelSmoother_ignore_index 1 [[1, 2, 3]] [[True, True, False]]
        [[True]] [[[7]]] = Inr a"
    and r: "loss_router 1 (\<lambda>i h. h) (\<lambda>h. h) (CrossEntropyLoss (\<lambda>lg t. lg + real_of_int t) (- 1))
          (\<lambda>x. ()) (\<lambda>a b. 0) True 3 [[10, 11, 12, 13, 14 :: real]] (labels a) () = Inr r"
    and t: "text_loss r =
       Some (CrossEntropyLoss (\<lambda>lg t. lg + real_of_int t) (- 1)
               (concat (map (\<lambda>row. map (\<lambda>t. row ! t) [0..<3 - 1]) [[10, 11, 12, 13, 14 :: real]]))
               (concat (map (\<lambda>row. map (\<lambda>t. row ! t ! 0) [1..<3]) (labels a))))"
    and tt: "concat (map (\<lambda>row. map (\<lambda>t. row ! t ! 0) [1..<3]) (labels a)) =
       concat (map (\<lambda>(m, i). map (\<lambda>t. if m ! t then i ! t else LabelSmoother_ignore_index) [1..<3])
                 (zip [[True, True, False]] [[1, 2, 3]]))"
    by blast
  have "text_loss r = Some 12"
    unfolding t tt
    by (simp add: CrossEntropyLoss_def CrossEntropyLoss_ignore_index_def
        LabelSmoother_ignore_index_def upt_rec)
  with wf a r show ?thesis by blast
qed

text \<open>
  Claim C7, as the specification words it, fails: the router does not take the hidden
  states at the positions 1 to \<open>text_len - 1\<close>. For \<open>text_len = 3\<close> and the hidden states
  10 to 14 it projects the states 10 and 11, not 11 and 12, and with the identity as
  projection and the sum of the logits as loss the text loss is 21, not 23.
\<close>

theorem text_hidden_positions_counterexample:
  "text_hidden_states 3 [[10, 11, 12, 13, 14 :: real]] = [[10, 11]] \<and>
   spec_text_hidden_states 3 [[10, 11, 12, 13, 14 :: real]] = [[11, 12]] \<and>
   text_hidden_states 3 [[10, 11, 12, 13, 14 :: real]]
     \<noteq> spec_text_hidden_states 3 [[10, 11, 12, 13, 14 :: real]] \<and>
   map_sum id text_loss
     (loss_router 1 (\<lambda>i h. h) (\<lambda>h. h) (\<lambda>lg tg. sum_list lg) (\<lambda>x. ()) (\<lambda>a b. 0) True 3
        [[10, 11, 12, 13, 14 :: real]] [[[1], [2], [3], [4], [5]]] ()) = Inr (Some 21) \<and>
   sum_list (flatten01 (map (map (\<lambda>h. h))
      (spec_text_hidden_states 3 [[10, 11, 12, 13, 14 :: real]]))) = 23"
  by (simp add: text_hidden_states_def spec_text_hidden_states_def py_slice_to_def py_slice_def
      py_slice_from_def py_bound_def loss_router_def text_branch_def first_slot_def ce_call_def
      audio_hidden_states_def stack_heads_def flatten01_def flatten02_def Let_def)

section \<open>Properties of the speaker embedding insertion\<close>

lemma assign_where_nth:
  "t < length sel \<Longrightarrow> t < length row \<Longrightarrow>
   assign_where sel v row ! t = (if sel ! t then v else row ! t)"
  by (simp add: assign_where_def)

lemma length_assign_where: "length (assign_where sel v row) = min (length sel) (length row)"
  by (simp add: assign_where_def)

lemma insert_speakers_rows:
  "distinct (map fst ps) \<Longrightarrow>
   (\<forall>p\<in>set ps. fst p < length emb \<and> fst p < length indices \<and> embeds (snd p) \<noteq> None) \<Longrightarrow>
   \<exists>out. insert_speakers nz embeds indices ps emb = Inr out \<and> length out = length emb \<and>
     (\<forall>i<length emb. out ! i =
        (case map_of ps i of
           None \<Rightarrow> emb ! i
         | Some sp \<Rightarrow> assign_where (indices ! i) (nz (the (embeds sp))) (emb ! i)))"
proof (induction ps arbitrary: emb)
  case Nil
  then show ?case by simp
next
  case (Cons p ps)
  obtain i sp where p: "p = (i, sp)" by (cases p)
  from Cons.prems p obtain v where v: "embeds sp = Some v"
    and i: "i < length emb" "i < length indices" "i \<notin> fst ` set ps" "distinct (map fst ps)"
    by auto
  let ?emb1 = "emb[i := assign_where (indices ! i) (nz v) (emb ! i)]"
  have step: "insert_speakers nz embeds indices (p # ps) emb =
      insert_speakers nz embeds indices ps ?emb1"
    using p v i by simp
  have pre: "\<forall>q\<in>set ps. fst q < length ?emb1 \<and> fst q < length indices \<and> embeds (snd q) \<noteq> None"
    using Cons.prems by simp
  from Cons.IH[OF i(4) pre] obtain out where out:
    "insert_speakers nz embeds indices ps ?emb1 = Inr out" "length out = length emb"
    "\<forall>j<length emb. out ! j =
        (case map_of ps j of
           None \<Rightarrow> ?emb1 ! j
         | Some sp \<Rightarrow> assign_where (indices ! j) (nz (the (embeds sp))) (?emb1 ! j))"
    by auto
  have none: "map_of ps i = None" using i(3) by (simp add: map_of_eq_None_iff)
  have "out ! j =
        (case map_of (p # ps) j of
           None \<Rightarrow> emb ! j
         | Some sp \<Rightarrow> assign_where (indices ! j) (nz (the (embeds sp))) (emb ! j))"
    if j: "j < length emb" for j
  proof (cases "j = i")
    case True
    then show ?thesis using out(3) j none p v by simp
  next
    case False
    then show ?thesis using out(3) j p by (simp split: option.split)
  qed
  with step out(1,2) show ?case by simp
qed

text \<open>
  Claim C10. When every speaker of the batch has an entry in the table, the insertion
  returns, and the embedding at a position of row \<open>i\<close> is the normalized embedding of
  the speaker of row \<open>i\<close> exactly when every codebook slot of the combined ids at that
  position is the speaker token id; at every other position, one that matches in some
  slots only included, the embedding is the one it was.
\<close>

theorem speaker_embedding_iff_all_slots:
  assumes ls: "length speakers = length inputs_embeds"
    and li: "length ids = length inputs_embeds"
    and rows: "list_all2 (\<lambda>a b. length a = length b) ids inputs_embeds"
    and known: "list_all (\<lambda>speaker. embeds speaker \<noteq> None) speakers"
  shows "\<exists>out. embed_speakers SPEAKER_TOKEN_ID l2_normalize embeds speakers ids inputs_embeds
           = Inr out \<and>
     length out = length inputs_embeds \<and>
     (\<forall>i<length inputs_embeds. length (out ! i) = length (inputs_embeds ! i) \<and>
        (\<forall>t<length (inputs_embeds ! i).
           out ! i ! t =
             (if list_all (\<lambda>slot. slot = SPEAKER_TOKEN_ID) (ids ! i ! t)
              then l2_normalize (the (embeds (speakers ! i)))
              else inputs_embeds ! i ! t)))"
proof -
  let ?ps = "zip [0..<length speakers] speakers"
  let ?ind = "all_speaker_token SPEAKER_TOKEN_ID ids"
  have d: "distinct (map fst ?ps)" by simp
  have pre: "\<forall>p\<in>set ?ps. fst p < length inputs_embeds \<and> fst p < length ?ind \<and>
      embeds (snd p) \<noteq> None"
  proof
    fix p assume "p \<in> set ?ps"
    then obtain n where "n < length speakers" "p = (n, speakers ! n)"
      by (auto simp: set_zip)
    then show "fst p < length inputs_embeds \<and> fst p < length ?ind \<and> embeds (snd p) \<noteq> None"
      using ls li known by (simp add: all_speaker_token_def list_all_length)
  qed
  from insert_speakers_rows[OF d pre, of l2_normalize] obtain out where out:
    "insert_speakers l2_normalize embeds ?ind ?ps inputs_embeds = Inr out"
    "length out = length inputs_embeds"
    "\<forall>i<length inputs_embeds. out ! i =
        (case map_of ?ps i of
           None \<Rightarrow> inputs_embeds ! i
         | Some sp \<Rightarrow> assign_where (?ind ! i) (l2_normalize (the (embeds sp))) (inputs_embeds ! i))"
    by blast
  have "length (out ! i) = length (inputs_embeds ! i) \<and>
        (\<forall>t<length (inputs_embeds ! i).
           out ! i ! t =
             (if list_all (\<lambda>slot. slot = SPEAKER_TOKEN_ID) (ids ! i ! t)
              then l2_normalize (the (embeds (speakers ! i)))
              else inputs_embeds ! i ! t))"
    if i: "i < length inputs_embeds" for i
  proof -
    have "map_of ?ps ([0..<length speakers] ! i) = Some (speakers ! i)"
      using i ls by (intro map_of_zip_nth) simp_all
    then have m: "map_of ?ps i = Some (speakers ! i)" using i ls by simp
    have len: "length (ids ! i) = length (inputs_embeds ! i)"
      using rows i by (simp add: list_all2_conv_all_nth)
    have row: "out ! i =
        assign_where (?ind ! i) (l2_normalize (the (embeds (speakers ! i)))) (inputs_embeds ! i)"
      using out(3) i m by simp
    have sel: "?ind ! i ! t = list_all (\<lambda>slot. slot = SPEAKER_TOKEN_ID) (ids ! i ! t)"
      if "t < length (inputs_embeds ! i)" for t
      using that i li len by (simp add: all_speaker_token_def)
    have l: "length (?ind ! i) = length (inputs_embeds ! i)"
      using i li len by (simp add: all_speaker_token_def)
    show ?thesis using row sel l by (simp add: assign_where_nth length_assign_where)
  qed
  with out(1,2) show ?thesis unfolding embed_speakers_def by blast
qed

theorem speaker_embedding_iff_all_slots_witness:
  "length [''A'', ''B''] = length [[10, 11, 12], [20, 21, 22 :: int]] \<and>
   list_all (\<lambda>speaker. [''A'' \<mapsto> 1, ''B'' \<mapsto> 2 :: int] speaker \<noteq> None) [''A'', ''B''] \<and>
   embed_speakers 9 (\<lambda>v. v * 100) [''A'' \<mapsto> 1, ''B'' \<mapsto> 2] [''A'', ''B'']
      [[[9, 9], [9, 3], [4, 5]], [[3, 9], [9, 9], [9, 9]]]
      [[10, 11, 12], [20, 21, 22 :: int]] = Inr [[100, 11, 12], [20, 200, 200]]"
proof -
  let ?ids = "[[[9, 9], [9, 3], [4, 5]], [[3, 9], [9, 9], [9, 9 :: int]]]"
  let ?emb = "[[10, 11, 12], [20, 21, 22 :: int]]"
  let ?tab = "[''A'' \<mapsto> 1, ''B'' \<mapsto> 2 :: int]"
  have ls: "length [''A'', ''B''] = length ?emb" by simp
  have li: "length ?ids = length ?emb" by simp
  have rows: "list_all2 (\<lambda>a b. length a = length b) ?ids ?emb" by simp
  have known: "list_all (\<lambda>speaker. ?tab speaker \<noteq> None) [''A'', ''B'']" by simp
  from speaker_embedding_iff_all_slots[OF ls li rows known, of 9 "\<lambda>v. v * 100"]
  obtain out where out: "embed_speakers 9 (\<lambda>v. v * 100) ?tab [''A'', ''B''] ?ids ?emb = Inr out"
    and len: "length out = length ?emb"
    and rws: "\<forall>i<length ?emb. length (out ! i) = length (?emb ! i) \<and>
        (\<forall>t<length (?emb ! i).
           out ! i ! t =
             (if list_all (\<lambda>slot. slot = 9) (?ids ! i ! t)
              then (the (?tab ([''A'', ''B''] ! i))) * 100
              else ?emb ! i ! t))"
    by blast
  from rws have r0: "length (out ! 0) = Suc (Suc (Suc 0)) \<and> out ! 0 ! 0 = 100 \<and> out ! 0 ! Suc 0 = 11 \<and>
      out ! 0 ! Suc (Suc 0) = 12"
    by (simp add: All_less_Suc)
  from rws have r1: "length (out ! Suc 0) = Suc (Suc (Suc 0)) \<and> out ! Suc 0 ! 0 = 20 \<and>
      out ! Suc 0 ! Suc 0 = 200 \<and> out ! Suc 0 ! Suc (Suc 0) = 200"
    by (simp add: All_less_Suc)
  have "out ! 0 = [100, 11, 12]" using r0
    by (intro nth_equalityI) (auto simp: less_Suc_eq)
  moreover have "out ! Suc 0 = [20, 200, 200]" using r1
    by (intro nth_equalityI) (auto simp: less_Suc_eq)
  ultimately have "out = [[100, 11, 12], [20, 200, 200]]" using len
    by (intro nth_equalityI) (auto simp: less_Suc_eq)
  with out ls known show ?thesis by blast
qed

section \<open>Properties of the set-up of train_gpt\<close>

text \<open>The joint mode and the speaker-only mode: the frozen modules are in inference mode
  without gradients, the sequence model is in training mode exactly in the joint mode, the
  optimizer holds the parameters that are clipped, and the run makes the four calls per
  batch.\<close>

lemma train_gpt_joint:
  "\<exists>r. train_gpt randn std mean speakers pretrain_models GPT_SPEAKER epochs n_batches supplied = Inr r \<and>
     decoder_decoder (modules r) = eval_frozen \<and> decoder_encoder (modules r) = eval_frozen \<and>
     dvae_decoder (modules r) = eval_frozen \<and> dvae_encoder (modules r) = eval_frozen \<and>
     gpt (modules r) = train_unfrozen \<and>
     train_params r = insert GptParameters (SpeakerEmbed ` dom (speaker_embeds r)) \<and>
     \<Union> (fst ` set (param_groups (optimizer r))) = train_params r \<and>
     events r = run_events (train_params r) epochs n_batches"
  by (simp add: train_gpt_def match_train_module_def Let_def)

lemma train_gpt_speaker_only:
  "\<exists>r. train_gpt randn std mean speakers pretrain_models SPEAKER epochs n_batches supplied = Inr r \<and>
     decoder_decoder (modules r) = eval_frozen \<and> decoder_encoder (modules r) = eval_frozen \<and>
     dvae_decoder (modules r) = eval_frozen \<and> dvae_encoder (modules r) = eval_frozen \<and>
     gpt (modules r) = eval_frozen \<and>
     train_params r = SpeakerEmbed ` dom (speaker_embeds r) \<and>
     \<Union> (fst ` set (param_groups (optimizer r))) = train_params r \<and>
     events r = run_events (train_params r) epochs n_batches"
  by (simp add: train_gpt_def match_train_module_def Let_def)

text \<open>
  Claim C1, at the model-only mode. The case of the \<open>match\<close> for this mode binds
  \<open>train_params\<close> and no optimizer, so the read of \<open>optimizer\<close> on line 180 raises
  UnboundLocalError before the first epoch: no optimizer over the model's parameters is
  constructed and no batch iteration takes place, whatever the other arguments.
\<close>

theorem train_gpt_model_only_unbound_optimizer:
  "train_gpt randn std mean speakers pretrain_models GPT epochs n_batches supplied =
     Inl UnboundLocalError"
  by (simp add: train_gpt_def match_train_module_def Let_def)

text \<open>What the table holds for a speaker: a supplied entry wins over the fresh draw, a
  speaker of the dataset that is not supplied gets the fresh draw, and both go through
  the scaling by \<open>std\<close> and \<open>mean\<close>.\<close>

lemma speaker_table_supplied:
  "supplied k = Some e \<Longrightarrow>
   speaker_table randn std mean train_module speakers supplied k =
     Some (e\<lparr>data := scale_shift std mean (data e)\<rparr>)"
  by (simp add: speaker_table_def normalize_speaker_embeds_def merge_speaker_embeds_def)

lemma speaker_table_fresh:
  "supplied k = None \<Longrightarrow> k \<in> set speakers \<Longrightarrow>
   speaker_table randn std mean train_module speakers supplied k =
     Some \<lparr>data = scale_shift std mean (randn k),
           requires_grad = (train_module = GPT_SPEAKER \<or> train_module = SPEAKER)\<rparr>"
  by (simp add: speaker_table_def normalize_speaker_embeds_def merge_speaker_embeds_def
      fresh_speaker_embeds_def map_add_def)

lemma dom_speaker_table:
  "dom (speaker_table randn std mean train_module speakers supplied) = set speakers \<union> dom supplied"
  by (auto simp: speaker_table_def normalize_speaker_embeds_def merge_speaker_embeds_def
      fresh_speaker_embeds_def map_add_def dom_def split: option.splits if_splits)

text \<open>
  Claim C8, at a supplied entry. With \<open>std = [2]\<close> and \<open>mean = [1]\<close> the supplied
  vector \<open>[3]\<close> of speaker B enters training as \<open>[7]\<close>: the loop of lines 160 to 162
  runs over the merged table, so the scaling is applied to supplied entries too.
\<close>

theorem supplied_speaker_embed_rescaled:
  "map_option data
     (speaker_table (\<lambda>_. [0]) [2] [1] GPT_SPEAKER [''A'']
        [''B'' \<mapsto> \<lparr>data = [3], requires_grad = False\<rparr>] ''B'') = Some [7] \<and>
   map_option data
     (speaker_table (\<lambda>_. [0]) [2] [1] GPT_SPEAKER [''A'']
        [''B'' \<mapsto> \<lparr>data = [3], requires_grad = False\<rparr>] ''B'') \<noteq> Some [3]"
  by (simp add: speaker_table_def normalize_speaker_embeds_def merge_speaker_embeds_def
      scale_shift_def)

section \<open>Properties of the autoencoder stage\<close>

lemma nth_update_keeps:
  assumes "f (g (xs ! d)) = f (xs ! d)"
  shows "f (xs[d := g (xs ! d)] ! k) = f (xs ! k)"
proof (cases "d < length xs")
  case True
  with assms show ?thesis by (cases "k = d") simp_all
next
  case False
  then show ?thesis by (simp add: list_update_beyond)
qed

text \<open>A property of the store that every batch step keeps holds of every store of the
  loops, and the loops make one store per batch.\<close>

lemma scan_batches_inv:
  assumes "\<And>b s. P s \<Longrightarrow> P (step b s)"
  shows "P s \<Longrightarrow> list_all P (scan_batches step s bs) \<and> P (last (s # scan_batches step s bs))"
  using assms by (induction bs arbitrary: s) simp_all

lemma last_Cons_append: "last (s # xs @ ys) = last (last (s # xs) # ys)"
  by (cases ys) simp_all

lemma scan_epochs_inv:
  assumes "\<And>b s. P s \<Longrightarrow> P (step b s)"
  shows "P s \<Longrightarrow> list_all P (scan_epochs step s l) \<and> P (last (s # scan_epochs step s l))"
proof (induction l arbitrary: s)
  case Nil
  then show ?case by simp
next
  case (Cons e es)
  from scan_batches_inv[of P step s e, OF assms Cons.prems]
  have b: "list_all P (scan_batches step s e)" "P (last (s # scan_batches step s e))"
    by simp_all
  from Cons.IH[OF b(2)]
  have "list_all P (scan_epochs step (last (s # scan_batches step s e)) es)"
    "P (last (last (s # scan_batches step s e) # scan_epochs step (last (s # scan_batches step s e)) es))"
    by simp_all
  with b(1) show ?case by (simp add: last_Cons_append del: last.simps)
qed

lemma length_scan_batches: "length (scan_batches step s bs) = length bs"
  by (induction bs arbitrary: s) simp_all

lemma length_scan_epochs: "length (scan_epochs step s l) = length (concat l)"
  by (induction l arbitrary: s) (simp_all add: length_scan_batches)

lemma length_decoders_ae_step:
  "length (decoders (ae_step sgd te td vq e d b s)) = length (decoders s)"
  by (simp add: ae_step_def split_def Let_def)

lemma vq_layer_ae_step:
  "vq_layer (decoders (ae_step sgd te td vq e d b s) ! k) = vq_layer (decoders s ! k)"
  by (simp add: ae_step_def split_def Let_def nth_update_keeps)

lemma ae_train_trace_vq:
  assumes d: "d < length (decoders s)"
  shows "vq_layer (decoders (snd (ae_train_trace sgd te td e d loader s)) ! d)
           = vq_layer (decoders s ! d) \<and>
     length (fst (ae_train_trace sgd te td e d loader s)) = Suc (length (concat loader)) \<and>
     list_all (\<lambda>st. vq_layer (decoders st ! d) = None) (fst (ae_train_trace sgd te td e d loader s))"
proof -
  let ?P = "\<lambda>st. length (decoders st) = length (decoders s) \<and> vq_layer (decoders st ! d) = None"
  let ?vq = "vq_layer (decoders s ! d)"
  let ?s1 = "set_vq_layer d None s"
  let ?step = "ae_step sgd te td ?vq e d"
  have keep: "\<And>b st. ?P st \<Longrightarrow> ?P (?step b st)"
    by (simp add: length_decoders_ae_step vq_layer_ae_step)
  have start: "?P ?s1" using d by (simp add: set_vq_layer_def)
  from scan_epochs_inv[of ?P ?step ?s1 loader, OF keep start]
  have all: "list_all ?P (scan_epochs ?step ?s1 loader)"
    and fin: "?P (last (?s1 # scan_epochs ?step ?s1 loader))"
    by simp_all
  from all have none: "list_all (\<lambda>st. vq_layer (decoders st ! d) = None) (scan_epochs ?step ?s1 loader)"
    by (simp add: list_all_iff)
  from fin d have "vq_layer (decoders (set_vq_layer d ?vq (last (?s1 # scan_epochs ?step ?s1 loader))) ! d)
      = ?vq"
    by (simp add: set_vq_layer_def del: last.simps)
  with none start show ?thesis
    by (simp add: ae_train_trace_def Let_def length_scan_epochs del: last.simps)
qed

lemma prepare_vq:
  "vq_layer (decoders (set_dec_flags d f (set_enc_flags e g (snd (new_encoder w s)))) ! d) =
     vq_layer (decoders s ! d) \<and>
   length (decoders (set_dec_flags d f (set_enc_flags e g (snd (new_encoder w s))))) =
     length (decoders s)"
  by (simp add: set_dec_flags_def set_enc_flags_def new_encoder_def nth_update_keeps)

text \<open>
  Claim C9. When \<open>train_autoencoder\<close> runs to completion, the \<open>vq_layer\<close> attribute of
  the decoder it was given is at exit what it was at entry. In between it is detached:
  the run passes through one store when the loops start and one more after each batch, and
  in every one of them the attribute of that decoder is \<open>None\<close>.
\<close>

theorem vq_layer_detached_and_restored:
  assumes run: "train_autoencoder sgd fresh encoder decoder train_module loader s = Inr s'"
    and d: "decoder < length (decoders s)"
  shows "vq_layer (decoders s' ! decoder) = vq_layer (decoders s ! decoder) \<and>
     (\<exists>during.
        train_autoencoder_trace sgd fresh encoder decoder train_module loader s
          = Inr (during, s') \<and>
        length during = Suc (length (concat loader)) \<and>
        (\<forall>st\<in>set during. vq_layer (decoders st ! decoder) = None))"
proof -
  let ?e = "length (encoders s)"
  have goal: "vq_layer (decoders (snd (ae_train_trace sgd te td ?e decoder loader s0)) ! decoder)
        = vq_layer (decoders s ! decoder) \<and>
      length (fst (ae_train_trace sgd te td ?e decoder loader s0)) = Suc (length (concat loader)) \<and>
      (\<forall>st\<in>set (fst (ae_train_trace sgd te td ?e decoder loader s0)).
          vq_layer (decoders st ! decoder) = None)"
    if "s0 = set_dec_flags decoder f (set_enc_flags ?e g (snd (new_encoder fresh s)))"
    for te td s0 f g
  proof -
    from prepare_vq[of decoder f ?e g fresh s] that d
    have "decoder < length (decoders s0)"
      and "vq_layer (decoders s0 ! decoder) = vq_layer (decoders s ! decoder)"
      by simp_all
    with ae_train_trace_vq[of decoder s0 sgd te td ?e loader] show ?thesis
      by (simp add: list_all_iff)
  qed
  have fin: ?thesis
    if tr: "train_autoencoder_trace sgd fresh encoder decoder train_module loader s
        = Inr (ae_train_trace sgd te td ?e decoder loader s0)"
      and s0: "s0 = set_dec_flags decoder f (set_enc_flags ?e g (snd (new_encoder fresh s)))"
    for te td s0 f g
  proof -
    obtain during sx where p: "ae_train_trace sgd te td ?e decoder loader s0 = (during, sx)"
      by (cases "ae_train_trace sgd te td ?e decoder loader s0")
    from run tr p have sx: "s' = sx" by (simp add: train_autoencoder_def)
    from goal[OF s0, of te td] p sx
    have "vq_layer (decoders s' ! decoder) = vq_layer (decoders s ! decoder)"
      and "length during = Suc (length (concat loader))"
      and "\<forall>st\<in>set during. vq_layer (decoders st ! decoder) = None"
      by simp_all
    moreover from tr p sx
    have "train_autoencoder_trace sgd fresh encoder decoder train_module loader s
        = Inr (during, s')"
      by simp
    ultimately show ?thesis by blast
  qed
  show ?thesis
  proof (cases train_module)
    case AUTOENCODER
    show ?thesis
      by (rule fin[of True True _ train_unfrozen train_unfrozen])
         (simp_all add: AUTOENCODER train_autoencoder_trace_def new_encoder_def split_def Let_def)
  next
    case ENCODER
    show ?thesis
      by (rule fin[of True False _ eval_frozen train_unfrozen])
         (simp_all add: ENCODER train_autoencoder_trace_def new_encoder_def split_def Let_def)
  next
    case DECODER
    show ?thesis
      by (rule fin[of False True _ train_unfrozen eval_frozen])
         (simp_all add: DECODER train_autoencoder_trace_def new_encoder_def split_def Let_def)
  qed (use run in \<open>simp_all add: train_autoencoder_def train_autoencoder_trace_def split_def\<close>)
qed

theorem vq_layer_detached_and_restored_witness:
  "train_autoencoder (\<lambda>b q we wd. (we + 1, wd + 2)) (30 :: int) 0 0 AUTOENCODER [[()], [()]]
     \<lparr>encoders = [\<lparr>enc_weights = 10, enc_flags = train_unfrozen\<rparr>],
      decoders = [\<lparr>dec_weights = 50, dec_flags = eval_frozen, vq_layer = Some (7 :: nat)\<rparr>]\<rparr> =
   Inr \<lparr>encoders = [\<lparr>enc_weights = 10, enc_flags = train_unfrozen\<rparr>,
                     \<lparr>enc_weights = 32, enc_flags = train_unfrozen\<rparr>],
        decoders = [\<lparr>dec_weights = 54, dec_flags = train_unfrozen, vq_layer = Some 7\<rparr>]\<rparr> \<and>
   vq_layer (decoders \<lparr>encoders = [\<lparr>enc_weights = 10 :: int, enc_flags = train_unfrozen\<rparr>,
                     \<lparr>enc_weights = 32, enc_flags = train_unfrozen\<rparr>],
        decoders = [\<lparr>dec_weights = 54 :: int, dec_flags = train_unfrozen, vq_layer = Some (7 :: nat)\<rparr>]\<rparr> ! 0)
     = Some 7 \<and>
   (\<exists>during.
      train_autoencoder_trace (\<lambda>b q we wd. (we + 1, wd + 2)) (30 :: int) 0 0 AUTOENCODER [[()], [()]]
        \<lparr>encoders = [\<lparr>enc_weights = 10, enc_flags = train_unfrozen\<rparr>],
         decoders = [\<lparr>dec_weights = 50, dec_flags = eval_frozen, vq_layer = Some (7 :: nat)\<rparr>]\<rparr> =
      Inr (during,
           \<lparr>encoders = [\<lparr>enc_weights = 10, enc_flags = train_unfrozen\<rparr>,
                        \<lparr>enc_weights = 32, enc_flags = train_unfrozen\<rparr>],
            decoders = [\<lparr>dec_weights = 54, dec_flags = train_unfrozen, vq_layer = Some 7\<rparr>]\<rparr>) \<and>
      length during = 3 \<and>
      list_all (\<lambda>st. vq_layer (decoders st ! 0) = None) during)"
proof -
  let ?s = "\<lparr>encoders = [\<lparr>enc_weights = 10 :: int, enc_flags = train_unfrozen\<rparr>],
      decoders = [\<lparr>dec_weights = 50 :: int, dec_flags = eval_frozen, vq_layer = Some (7 :: nat)\<rparr>]\<rparr>"
  let ?s' = "\<lparr>encoders = [\<lparr>enc_weights = 10 :: int, enc_flags = train_unfrozen\<rparr>,
                     \<lparr>enc_weights = 32, enc_flags = train_unfrozen\<rparr>],
        decoders = [\<lparr>dec_weights = 54 :: int, dec_flags = train_unfrozen, vq_layer = Some (7 :: nat)\<rparr>]\<rparr>"
  have run: "train_autoencoder (\<lambda>b q we wd. (we + 1, wd + 2)) 30 0 0 AUTOENCODER [[()], [()]] ?s
      = Inr ?s'"
    by (simp add: train_autoencoder_def train_autoencoder_trace_def new_encoder_def
        set_enc_flags_def set_dec_flags_def ae_train_trace_def set_vq_layer_def ae_step_def Let_def)
  have d: "0 < length (decoders ?s)" by simp
  from vq_layer_detached_and_restored[OF run d]
  obtain during where a: "vq_layer (decoders ?s' ! 0) = vq_layer (decoders ?s ! 0)"
    and t: "train_autoencoder_trace (\<lambda>b q we wd. (we + 1, wd + 2)) 30 0 0 AUTOENCODER [[()], [()]] ?s
      = Inr (during, ?s')"
    and l: "length during = Suc (length (concat [[()], [()]]))"
    and n: "\<forall>st\<in>set during. vq_layer (decoders st ! 0) = None"
    by blast
  from a have a': "vq_layer (decoders ?s' ! 0) = Some 7" by simp
  from l have l': "length during = 3" by simp
  from n have n': "list_all (\<lambda>st. vq_layer (decoders st ! 0) = None) during"
    by (simp add: list_all_iff)
  from run a' t l' n' show ?thesis by blast
qed

text \<open>The training loop writes the encoder it trains and no other: the encoder objects
  of the driver keep their weights, and the encoder-only run saves the weights its
  \<open>decoder_encoder\<close> had before training, for every optimizer and every loader.\<close>

lemma ae_step_encoders_frame:
  "k \<noteq> e \<Longrightarrow>
   length (encoders (ae_step sgd te td vq e d b s)) = length (encoders s) \<and>
   encoders (ae_step sgd te td vq e d b s) ! k = encoders s ! k"
  by (simp add: ae_step_def split_def Let_def)

lemma ae_train_encoders_frame:
  assumes k: "k \<noteq> e"
  shows "encoders (snd (ae_train_trace sgd te td e d loader s)) ! k = encoders s ! k"
proof -
  let ?P = "\<lambda>st. length (encoders st) = length (encoders s) \<and> encoders st ! k = encoders s ! k"
  let ?vq = "vq_layer (decoders s ! d)"
  let ?s1 = "set_vq_layer d None s"
  let ?step = "ae_step sgd te td ?vq e d"
  have keep: "\<And>b st. ?P st \<Longrightarrow> ?P (?step b st)"
    using k by (simp add: ae_step_encoders_frame)
  have start: "?P ?s1" by (simp add: set_vq_layer_def)
  from scan_epochs_inv[of ?P ?step ?s1 loader, OF keep start]
  have "?P (last (?s1 # scan_epochs ?step ?s1 loader))" by simp
  then show ?thesis
    by (simp add: ae_train_trace_def Let_def set_vq_layer_def del: last.simps)
qed

lemma main_autoencoder_saves_untrained_encoder:
  "map_sum id fst
     (main_autoencoder sgd fresh0 fresh1 fresh2 pre_decoder pre_dvae paths ENCODER
        DecoderType_DECODER loader) =
   Inr [(''decoder_encoder.pth'', load_state_dict (decoder_encoder_path paths) fresh0)]"
  by (simp add: main_autoencoder_def train_autoencoder_def train_autoencoder_trace_def
      new_encoder_def Let_def save_autoencoder_def ae_train_encoders_frame set_dec_flags_def
      set_enc_flags_def main_store_def nth_append)

text \<open>
  Claim C2, at an encoder-only run of two epochs of one batch each, with an optimizer
  step that adds one to the encoder weights. The encoder objects of the run end with the
  weights 10, 20 and 32: the third, constructed on line 55, is the one the loop trained;
  the file decoder_encoder.pth holds 10, the weights of the driver's untrained object.
\<close>

theorem encoder_checkpoint_untrained:
  "map_sum id (\<lambda>(saved, s). (saved, map enc_weights (encoders s)))
     (main_autoencoder (\<lambda>b q we wd. (we + 1, wd + 2)) (10 :: int) 20 30
        \<lparr>dec_weights = 50, dec_flags = eval_frozen, vq_layer = Some (7 :: nat)\<rparr>
        \<lparr>dec_weights = 60, dec_flags = eval_frozen, vq_layer = Some 8\<rparr>
        \<lparr>decoder_encoder_path = None, decoder_decoder_path = None,
         dvae_encoder_path = None, dvae_decoder_path = None\<rparr>
        ENCODER DecoderType_DECODER [[()], [()]]) =
   Inr ([(''decoder_encoder.pth'', 10)], [10, 20, 32])"
  by (simp add: main_autoencoder_def main_store_def load_state_dict_def train_autoencoder_def
      train_autoencoder_trace_def new_encoder_def set_enc_flags_def set_dec_flags_def
      ae_train_trace_def set_vq_layer_def ae_step_def save_autoencoder_def Let_def)

end
